theory Spec2Isabelle
  imports
    Main
    "HOL-Library.Char_ord"
    "HOL-Library.List_Lexorder"
    "HOL-Library.Sublist"
    "HOL-Library.Multiset"
begin

section \<open>The recommendation routines of the multi-model endpoint notebook\<close>

text \<open>
  The notebook \<^verbatim>\<open>multiple_recommendation_models_endpoint.ipynb\<close> defines two routines,
  \<^verbatim>\<open>get_recommendations_for_user\<close> (movies) and
  \<^verbatim>\<open>get_music_recommendations_for_user\<close> (songs). Each reads the lines of a candidate
  file, sends one request per row of the requested user to the hosting endpoint, and
  prints the titles of the nine best scored items.

  Strings are lists of bytes (the UTF-8 encoding of the Python text): splitting at a
  comma, joining, equality and the lexicographic order of Python strings are the same
  on the UTF-8 bytes as on the code points.
\<close>

subsection \<open>Python values and built-ins used by the routines\<close>

datatype error =
    IndexError
  | UnboundLocalError
  | ValueError
  | ClientError string

text \<open>The two kinds of value the notebook passes as \<^verbatim>\<open>user_id\<close>.\<close>

datatype pyval = PyInt int | PyStr string

fun digits_of_nat :: "nat \<Rightarrow> string" where
  "digits_of_nat n =
     (if n < 10 then [''0123456789'' ! n]
      else digits_of_nat (n div 10) @ [''0123456789'' ! (n mod 10)])"

declare digits_of_nat.simps [simp del]

text \<open>\<^verbatim>\<open>str(user_id)\<close>\<close>

fun str_py :: "pyval \<Rightarrow> string" where
  "str_py (PyStr s) = s"
| "str_py (PyInt i) = (if i < 0 then CHR ''-'' # digits_of_nat (nat (- i)) else digits_of_nat (nat i))"

text \<open>\<^verbatim>\<open>line.split(sep)\<close> for a one-character separator: never the empty list.\<close>

fun split_py :: "char \<Rightarrow> string \<Rightarrow> string list" where
  "split_py sep [] = [[]]"
| "split_py sep (c # cs) =
     (if c = sep then [] # split_py sep cs
      else (case split_py sep cs of
              [] \<Rightarrow> [[c]]
            | w # ws \<Rightarrow> (c # w) # ws))"

text \<open>\<^verbatim>\<open>sep.join(fields)\<close>\<close>

fun join_py :: "string \<Rightarrow> string list \<Rightarrow> string" where
  "join_py sep [] = []"
| "join_py sep [x] = x"
| "join_py sep (x # y # ys) = x @ sep @ join_py sep (y # ys)"

text \<open>\<^verbatim>\<open>xs.pop(0)\<close>: the removed element and the list that remains.\<close>

definition pop0 :: "'a list \<Rightarrow> error + ('a \<times> 'a list)" where
  "pop0 xs = (case xs of [] \<Rightarrow> Inl IndexError | x # rest \<Rightarrow> Inr (x, rest))"

text \<open>\<^verbatim>\<open>xs[i]\<close> for the non-negative literal indices the routines use.\<close>

definition subscript :: "'a list \<Rightarrow> nat \<Rightarrow> error + 'a" where
  "subscript xs i = (if i < length xs then Inr (xs ! i) else Inl IndexError)"

text \<open>
  \<^verbatim>\<open>sorted(xs, key=key, reverse=reverse)\<close>. The sort is stable; with
  \<^verbatim>\<open>reverse=True\<close> CPython reverses the list, sorts it stably in ascending order and
  reverses the result, which keeps entries of equal key in their original order.
\<close>

definition sorted_py :: "('a \<Rightarrow> 'k::linorder) \<Rightarrow> bool \<Rightarrow> 'a list \<Rightarrow> 'a list" where
  "sorted_py key reverse xs =
     (if reverse then rev (sort_key key (rev xs)) else sort_key key xs)"

subsection \<open>The session: endpoint, metadata tables, conversions\<close>

text \<open>The keyword arguments of \<^verbatim>\<open>runtime_client.invoke_endpoint\<close>.\<close>

record request =
  EndpointName :: string
  ContentType :: string
  TargetModel :: string
  Body :: string

text \<open>The two columns of \<^verbatim>\<open>movie_df\<close> and of \<^verbatim>\<open>song_df\<close> that the routines read.\<close>

record movie_meta =
  movie_id :: int
  movie_title :: string

record 'f song_meta =
  short_song_id :: 'f
  title :: string

text \<open>
  The globals of the notebook session. The endpoint is an external service: its answer
  to a request (the decoded body of the response, or the exception raised) may depend on
  the requests it was sent before. \<^verbatim>\<open>int\<close> and \<^verbatim>\<open>float\<close> are the interpreter's
  conversions from text; the type \<open>'f\<close> stands for Python's floats and
  \<open>float_eq\<close> for their \<^verbatim>\<open>==\<close>.
\<close>

record 'f session =
  endpoint_name :: string
  invoke_endpoint :: "request list \<Rightarrow> request \<Rightarrow> error + string"
  movie_df :: "movie_meta list"
  song_df :: "'f song_meta list"
  int_py :: "string \<Rightarrow> error + int"
  float_py :: "string \<Rightarrow> error + 'f"
  float_eq :: "'f \<Rightarrow> 'f \<Rightarrow> bool"

text \<open>
  The local variables of a call (\<open>user\<close> is unbound until the loop body assigns it)
  and its effects: the requests sent so far and the lines printed so far.
\<close>

record run_state =
  predictions :: "(string \<times> string) list"
  user :: "string option"
  recommendations :: "(string \<times> string) list"
  requests :: "request list"
  stdout :: "string list"

definition initial_state :: run_state where
  "initial_state =
     \<lparr>predictions = [], user = None, recommendations = [], requests = [], stdout = []\<rparr>"

text \<open>\<^verbatim>\<open>print(a, b, ...)\<close>: one line, the arguments separated by a space.\<close>

definition print_py :: "string list \<Rightarrow> run_state \<Rightarrow> run_state" where
  "print_py args st = st\<lparr>stdout := stdout st @ [join_py '' '' args]\<rparr>"

text \<open>
  A \<^verbatim>\<open>for\<close> loop whose body may raise: the first exception ends the loop, and the
  effects up to that point remain.
\<close>

fun for_each :: "('a \<Rightarrow> 's \<Rightarrow> error option \<times> 's) \<Rightarrow> 'a list \<Rightarrow> 's \<Rightarrow> error option \<times> 's" where
  "for_each body [] st = (None, st)"
| "for_each body (x # xs) st =
     (case body x st of
        (Some e, st') \<Rightarrow> (Some e, st')
      | (None, st') \<Rightarrow> for_each body xs st')"

text \<open>The request and the bookkeeping of a matching row, the same in both routines.\<close>

definition score_row :: "'f session \<Rightarrow> string \<Rightarrow> string \<Rightarrow> string list \<Rightarrow> run_state \<Rightarrow> error option \<times> run_state" where
  "score_row env model_name item split_data st =
     (let payload = join_py '','' split_data;
          req = \<lparr>EndpointName = endpoint_name env, ContentType = ''text/csv'',
                 TargetModel = model_name, Body = payload\<rparr>;
          st1 = st\<lparr>requests := requests st @ [req]\<rparr>
      in case invoke_endpoint env (requests st) req of
           Inl e \<Rightarrow> (Some e, st1)
         | Inr prediction \<Rightarrow>
             (None, st1\<lparr>predictions := predictions st1 @ [(item, prediction)]\<rparr>))"

subsection \<open>get_recommendations_for_user\<close>

text \<open>The body of the scoring loop for one line of the movie file.\<close>

definition movie_line :: "'f session \<Rightarrow> string \<Rightarrow> string \<Rightarrow> string \<Rightarrow> run_state \<Rightarrow> error option \<times> run_state" where
  "movie_line env model_name predictions_for_user line st =
     (case pop0 (split_py CHR '','' line) of
        Inl e \<Rightarrow> (Some e, st)
      | Inr (original_value, split_data1) \<Rightarrow>
     (case pop0 split_data1 of
        Inl e \<Rightarrow> (Some e, st)
      | Inr (original_value, split_data) \<Rightarrow>
     (case subscript split_data 0 of
        Inl e \<Rightarrow> (Some e, st)
      | Inr u \<Rightarrow>
     (case subscript split_data 1 of
        Inl e \<Rightarrow> (Some e, st\<lparr>user := Some u\<rparr>)
      | Inr item \<Rightarrow>
          if u = predictions_for_user
          then score_row env model_name item split_data (st\<lparr>user := Some u\<rparr>)
          else (None, st\<lparr>user := Some u\<rparr>)))))"

text \<open>The body of the display loop for one selected entry.\<close>

definition movie_show :: "'f session \<Rightarrow> string \<times> string \<Rightarrow> run_state \<Rightarrow> error option \<times> run_state" where
  "movie_show env rec st =
     (case int_py env (fst rec) of
        Inl e \<Rightarrow> (Some e, st)
      | Inr movie_id' \<Rightarrow>
     (case subscript (map movie_title (filter (\<lambda>row. movie_id row = movie_id') (movie_df env))) 0 of
        Inl e \<Rightarrow> (Some e, st)
      | Inr movie_titile \<Rightarrow> (None, print_py [[CHR 0x09], movie_titile] st)))"

text \<open>The scoring loop: \<^verbatim>\<open>for i in range(0, len(contents) - 1)\<close>.\<close>

definition movie_scoring :: "'f session \<Rightarrow> string list \<Rightarrow> string \<Rightarrow> string \<Rightarrow> error option \<times> run_state" where
  "movie_scoring env contents model_name predictions_for_user =
     for_each (\<lambda>i. movie_line env model_name predictions_for_user (contents ! i))
       [0 ..< length contents - 1] initial_state"

text \<open>The display stage: the block under \<^verbatim>\<open>if show_predictions\<close>.\<close>

definition movie_display :: "'f session \<Rightarrow> string \<Rightarrow> run_state \<Rightarrow> error option \<times> run_state" where
  "movie_display env predictions_for_user st =
     (let sorted_predcitions = sorted_py snd True (predictions st);
          st1 = st\<lparr>recommendations := take 9 sorted_predcitions\<rparr>;
          st2 = print_py [''Recommended movies for user with id : '', predictions_for_user] st1
      in for_each (movie_show env) (recommendations st2) st2)"

definition get_recommendations_for_user ::
    "'f session \<Rightarrow> string list \<Rightarrow> string \<Rightarrow> pyval \<Rightarrow> bool \<Rightarrow> error option \<times> run_state" where
  "get_recommendations_for_user env contents model_name user_id show_predictions =
     (let predictions_for_user = str_py user_id in
      case movie_scoring env contents model_name predictions_for_user of
        (Some e, st) \<Rightarrow> (Some e, st)
      | (None, st) \<Rightarrow>
          if show_predictions then movie_display env predictions_for_user st
          else (None, st))"

subsection \<open>get_music_recommendations_for_user\<close>

definition music_line :: "'f session \<Rightarrow> string \<Rightarrow> string \<Rightarrow> string \<Rightarrow> run_state \<Rightarrow> error option \<times> run_state" where
  "music_line env model_name predictions_for_user line st =
     (case pop0 (split_py CHR '','' line) of
        Inl e \<Rightarrow> (Some e, st)
      | Inr (original_value, split_data) \<Rightarrow>
     (case subscript split_data 0 of
        Inl e \<Rightarrow> (Some e, st)
      | Inr u \<Rightarrow>
     (case subscript split_data 1 of
        Inl e \<Rightarrow> (Some e, st\<lparr>user := Some u\<rparr>)
      | Inr item \<Rightarrow>
          if u = predictions_for_user
          then score_row env model_name item split_data (st\<lparr>user := Some u\<rparr>)
          else (None, st\<lparr>user := Some u\<rparr>))))"

definition music_show :: "'f session \<Rightarrow> string \<times> string \<Rightarrow> run_state \<Rightarrow> error option \<times> run_state" where
  "music_show env rec st =
     (case float_py env (fst rec) of
        Inl e \<Rightarrow> (Some e, st)
      | Inr song_id \<Rightarrow>
     (case subscript (map title (filter (\<lambda>row. float_eq env (short_song_id row) song_id) (song_df env))) 0 of
        Inl e \<Rightarrow> (Some e, st)
      | Inr song_title \<Rightarrow> (None, print_py [[CHR 0x09], song_title] st)))"

definition music_scoring :: "'f session \<Rightarrow> string list \<Rightarrow> string \<Rightarrow> string \<Rightarrow> error option \<times> run_state" where
  "music_scoring env contents model_name predictions_for_user =
     for_each (\<lambda>i. music_line env model_name predictions_for_user (contents ! i))
       [0 ..< length contents - 1] initial_state"

text \<open>
  The display stage of the music routine prints the loop variable \<^verbatim>\<open>user\<close> in its
  header; the name is unbound when the loop body never ran.
\<close>

definition music_display :: "'f session \<Rightarrow> run_state \<Rightarrow> error option \<times> run_state" where
  "music_display env st =
     (let sorted_predcitions = sorted_py snd True (predictions st);
          st1 = st\<lparr>recommendations := take 9 sorted_predcitions\<rparr>
      in case user st1 of
           None \<Rightarrow> (Some UnboundLocalError, st1)
         | Some u \<Rightarrow>
             (let st2 = print_py [''Recommended songs for user with id : '', u] st1
              in for_each (music_show env) (recommendations st2) st2))"

definition get_music_recommendations_for_user ::
    "'f session \<Rightarrow> string list \<Rightarrow> string \<Rightarrow> pyval \<Rightarrow> bool \<Rightarrow> error option \<times> run_state" where
  "get_music_recommendations_for_user env contents model_name user_id show_predictions =
     (let predictions_for_user = str_py user_id in
      case music_scoring env contents model_name predictions_for_user of
        (Some e, st) \<Rightarrow> (Some e, st)
      | (None, st) \<Rightarrow>
          if show_predictions then music_display env st
          else (None, st))"

subsection \<open>Vocabulary for the statements\<close>

text \<open>
  What remains of a line after its first \<open>k\<close> comma-separated fields; a row is
  complete when a user field and an item field remain. The rows of a user are the
  complete rows that hold the given text in the user field.
\<close>

definition fields_after :: "nat \<Rightarrow> string \<Rightarrow> string list" where
  "fields_after k line = drop k (split_py CHR '','' line)"

definition user_field :: "nat \<Rightarrow> string \<Rightarrow> string" where
  "user_field k line = fields_after k line ! 0"

definition item_field :: "nat \<Rightarrow> string \<Rightarrow> string" where
  "item_field k line = fields_after k line ! 1"

definition complete_row :: "nat \<Rightarrow> string \<Rightarrow> bool" where
  "complete_row k line = (2 \<le> length (fields_after k line))"

text \<open>
  One routine for both datasets, as the specification words it: split the line, discard
  \<open>k\<close> label fields, take the next two fields as user and item, and score the row
  when the user is the requested one.
\<close>

definition row_step :: "nat \<Rightarrow> 'f session \<Rightarrow> string \<Rightarrow> string \<Rightarrow> string \<Rightarrow> run_state \<Rightarrow> error option \<times> run_state" where
  "row_step k env model_name uid line st =
     (case fields_after k line of
        [] \<Rightarrow> (Some IndexError, st)
      | [u] \<Rightarrow> (Some IndexError, st\<lparr>user := Some u\<rparr>)
      | u # item # rest \<Rightarrow>
          if u = uid
          then score_row env model_name item (u # item # rest) (st\<lparr>user := Some u\<rparr>)
          else (None, st\<lparr>user := Some u\<rparr>))"

definition rows_of_user :: "nat \<Rightarrow> string \<Rightarrow> string list \<Rightarrow> string list" where
  "rows_of_user k uid lines =
     filter (\<lambda>line. complete_row k line \<and> user_field k line = uid) lines"

definition request_for :: "'f session \<Rightarrow> string \<Rightarrow> nat \<Rightarrow> string \<Rightarrow> request" where
  "request_for env model_name k line =
     \<lparr>EndpointName = endpoint_name env, ContentType = ''text/csv'',
      TargetModel = model_name, Body = join_py '','' (fields_after k line)\<rparr>"

text \<open>
  Title resolution as the specification words it: convert the item id to the key type
  of the metadata table, look up the first row with that key, and give its title; a
  failed conversion or a key that no row carries is an error.
\<close>

definition movie_title_for :: "'f session \<Rightarrow> string \<times> string \<Rightarrow> error + string" where
  "movie_title_for env rec =
     (case int_py env (fst rec) of
        Inl e \<Rightarrow> Inl e
      | Inr k \<Rightarrow>
          (case find (\<lambda>row. movie_id row = k) (movie_df env) of
             None \<Rightarrow> Inl IndexError
           | Some row \<Rightarrow> Inr (movie_title row)))"

definition song_title_for :: "'f session \<Rightarrow> string \<times> string \<Rightarrow> error + string" where
  "song_title_for env rec =
     (case float_py env (fst rec) of
        Inl e \<Rightarrow> Inl e
      | Inr x \<Rightarrow>
          (case find (\<lambda>row. float_eq env (short_song_id row) x) (song_df env) of
             None \<Rightarrow> Inl IndexError
           | Some row \<Rightarrow> Inr (title row)))"

text \<open>
  The titles of the entries of a list up to the first entry whose resolution fails, and
  the error of that entry.
\<close>

fun titles_until_error :: "('a \<Rightarrow> error + string) \<Rightarrow> 'a list \<Rightarrow> error option \<times> string list" where
  "titles_until_error resolve [] = (None, [])"
| "titles_until_error resolve (r # rs) =
     (case resolve r of
        Inl e \<Rightarrow> (Some e, [])
      | Inr t \<Rightarrow> (fst (titles_until_error resolve rs), t # snd (titles_until_error resolve rs)))"

text \<open>The line \<^verbatim>\<open>print("\t", title)\<close> writes.\<close>

definition title_line :: "string \<Rightarrow> string" where
  "title_line t = CHR 0x09 # CHR '' '' # t"

subsection \<open>Sample sessions\<close>

definition nl :: string where
  "nl = [CHR 0x0A]"

text \<open>A conversion given by a finite table of texts; any other text is refused.\<close>

definition table_conversion :: "(string \<times> 'k) list \<Rightarrow> string \<Rightarrow> error + 'k" where
  "table_conversion tbl s = (case map_of tbl s of None \<Rightarrow> Inl ValueError | Some k \<Rightarrow> Inr k)"

text \<open>An endpoint that scores a payload by a finite table, whatever it was sent before.\<close>

definition table_endpoint :: "(string \<times> string) list \<Rightarrow> request list \<Rightarrow> request \<Rightarrow> error + string" where
  "table_endpoint tbl history req =
     (case map_of tbl (Body req) of
        None \<Rightarrow> Inl (ClientError ''ModelError'')
      | Some score \<Rightarrow> Inr score)"

text \<open>Floats for the sample sessions: finite values and a NaN that equals nothing.\<close>

datatype sample_float = Finite int | NaN

fun sample_float_eq :: "sample_float \<Rightarrow> sample_float \<Rightarrow> bool" where
  "sample_float_eq (Finite a) (Finite b) = (a = b)"
| "sample_float_eq _ _ = False"

text \<open>
  The scenario session: three candidate rows of user 100 for the items 1, 2 and 3, which
  the endpoint scores 0.9, 0.5 and 0.7. The endpoint also scores a row of item 5, at 0.5;
  the conversions know the text 4, which no metadata row carries.
\<close>

definition scenario_rows :: "string list" where
  "scenario_rows =
     [''5,5,100,1,0,1'' @ nl, ''3,3,100,2,1,0'' @ nl, ''4,4,100,3,1,1'' @ nl]"

definition scenario_music_rows :: "string list" where
  "scenario_music_rows =
     [''5,100,1,0,1'' @ nl, ''3,100,2,1,0'' @ nl, ''4,100,3,1,1'' @ nl]"

definition scenario :: "sample_float session" where
  "scenario =
     \<lparr>endpoint_name = ''recommendation-endpoint'',
      invoke_endpoint = table_endpoint
        [(''100,1,0,1'' @ nl, ''0.9''), (''100,2,1,0'' @ nl, ''0.5''), (''100,3,1,1'' @ nl, ''0.7''),
         (''100,5,0,0'' @ nl, ''0.5'')],
      movie_df =
        [\<lparr>movie_id = 1, movie_title = ''Toy Story (1995)''\<rparr>,
         \<lparr>movie_id = 2, movie_title = ''GoldenEye (1995)''\<rparr>,
         \<lparr>movie_id = 3, movie_title = ''Four Rooms (1995)''\<rparr>,
         \<lparr>movie_id = 5, movie_title = ''Copycat (1995)''\<rparr>],
      song_df =
        [\<lparr>short_song_id = Finite 1, title = ''Stronger''\<rparr>,
         \<lparr>short_song_id = Finite 2, title = ''Yellow''\<rparr>,
         \<lparr>short_song_id = Finite 3, title = ''Clocks''\<rparr>,
         \<lparr>short_song_id = Finite 5, title = ''Fix You''\<rparr>],
      int_py = table_conversion [(''1'', 1), (''2'', 2), (''3'', 3), (''4'', 4), (''5'', 5)],
      float_py = table_conversion
        [(''1'', Finite 1), (''2'', Finite 2), (''3'', Finite 3), (''4'', Finite 4),
         (''5'', Finite 5), (''nan'', NaN)],
      float_eq = sample_float_eq\<rparr>"

text \<open>Candidate files with rows of two users.\<close>

definition mixed_rows :: "string list" where
  "mixed_rows =
     [''5,5,100,1,0,1'' @ nl, ''3,3,200,2,1,0'' @ nl, ''4,4,100,3,1,1'' @ nl]"

definition mixed_music_rows :: "string list" where
  "mixed_music_rows =
     [''5,100,1,0,1'' @ nl, ''3,200,2,1,0'' @ nl, ''4,100,3,1,1'' @ nl]"

text \<open>Eleven rows of one user: ten of them are examined.\<close>

definition long_rows :: "string list" where
  "long_rows = replicate 11 (''5,5,100,1,0,1'' @ nl)"

definition long_music_rows :: "string list" where
  "long_music_rows = replicate 11 (''5,100,1,0,1'' @ nl)"

text \<open>Rows whose first and third scores are equal.\<close>

definition tie_rows :: "string list" where
  "tie_rows =
     [''3,3,100,2,1,0'' @ nl, ''5,5,100,1,0,1'' @ nl, ''3,3,100,5,0,0'' @ nl, ''4,4,100,3,1,1'' @ nl]"

definition tie_music_rows :: "string list" where
  "tie_music_rows =
     [''3,100,2,1,0'' @ nl, ''5,100,1,0,1'' @ nl, ''3,100,5,0,0'' @ nl, ''4,100,3,1,1'' @ nl]"

text \<open>
  A session whose endpoint also scores a row of item 4, for which the metadata tables
  have no row, and candidate files with such a row between the rows of items 1 and 2.
\<close>

definition gap_session :: "sample_float session" where
  "gap_session =
     scenario\<lparr>invoke_endpoint := table_endpoint
       [(''100,1,0,1'' @ nl, ''0.9''), (''100,4,1,0'' @ nl, ''0.8''), (''100,2,1,0'' @ nl, ''0.5'')]\<rparr>"

definition gap_rows :: "string list" where
  "gap_rows =
     [''5,5,100,1,0,1'' @ nl, ''4,4,100,4,1,0'' @ nl, ''3,3,100,2,1,0'' @ nl, ''1,1,200,3,1,1'' @ nl]"

definition gap_music_rows :: "string list" where
  "gap_music_rows =
     [''5,100,1,0,1'' @ nl, ''4,100,4,1,0'' @ nl, ''3,100,2,1,0'' @ nl, ''1,200,3,1,1'' @ nl]"

definition movie_model :: string where
  "movie_model = ''movie-rec-model.tar.gz''"

definition music_model :: string where
  "music_model = ''music-rec-model.tar.gz''"

section \<open>Properties\<close>

subsection \<open>Splitting, loops and the two phases\<close>

lemma split_py_not_Nil: "split_py sep s \<noteq> []"
  by (induction s) (auto split: list.splits)


lemma for_each_index: "for_each (\<lambda>i. body (g i)) xs st = for_each body (map g xs) st"
  by (induction xs arbitrary: st) (auto split: prod.splits option.splits)

lemma nth_butlast_range: "map ((!) contents) [0 ..< length contents - 1] = butlast contents"
  by (rule nth_equalityI) (simp_all add: nth_butlast)

lemma movie_line_row_step: "movie_line env m uid line st = row_step 2 env m uid line st"
proof -
  obtain w ws where ws: "split_py CHR '','' line = w # ws"
    using split_py_not_Nil [of "CHR '',''" line] by (cases "split_py CHR '','' line") auto
  show ?thesis
    by (simp add: movie_line_def row_step_def fields_after_def pop0_def subscript_def ws
        split: list.splits)
qed

lemma music_line_row_step: "music_line env m uid line st = row_step 1 env m uid line st"
proof -
  obtain w ws where ws: "split_py CHR '','' line = w # ws"
    using split_py_not_Nil [of "CHR '',''" line] by (cases "split_py CHR '','' line") auto
  show ?thesis
    by (simp add: music_line_def row_step_def fields_after_def pop0_def subscript_def ws
        split: list.splits)
qed

lemma movie_scoring_rows:
  "movie_scoring env contents m uid = for_each (row_step 2 env m uid) (butlast contents) initial_state"
proof -
  have "movie_scoring env contents m uid
      = for_each (\<lambda>i. row_step 2 env m uid (contents ! i)) [0 ..< length contents - 1] initial_state"
    by (simp only: movie_scoring_def movie_line_row_step [abs_def])
  also have "\<dots> = for_each (row_step 2 env m uid) (map ((!) contents) [0 ..< length contents - 1]) initial_state"
    by (rule for_each_index)
  finally show ?thesis by (simp only: nth_butlast_range)
qed

lemma music_scoring_rows:
  "music_scoring env contents m uid = for_each (row_step 1 env m uid) (butlast contents) initial_state"
proof -
  have "music_scoring env contents m uid
      = for_each (\<lambda>i. row_step 1 env m uid (contents ! i)) [0 ..< length contents - 1] initial_state"
    by (simp only: music_scoring_def music_line_row_step [abs_def])
  also have "\<dots> = for_each (row_step 1 env m uid) (map ((!) contents) [0 ..< length contents - 1]) initial_state"
    by (rule for_each_index)
  finally show ?thesis by (simp only: nth_butlast_range)
qed


lemma row_step_cases:
  "row_step k env m uid line st = (err, st') \<Longrightarrow>
     (err = Some IndexError \<and> \<not> complete_row k line \<and> requests st' = requests st
        \<and> predictions st' = predictions st)
   \<or> (complete_row k line \<and> user_field k line \<noteq> uid \<and> err = None
        \<and> st' = st\<lparr>user := Some (user_field k line)\<rparr>)
   \<or> (complete_row k line \<and> user_field k line = uid
        \<and> requests st' = requests st @ [request_for env m k line]
        \<and> user st' = Some (user_field k line)
        \<and> stdout st' = stdout st \<and> recommendations st' = recommendations st
        \<and> (case invoke_endpoint env (requests st) (request_for env m k line) of
              Inl e \<Rightarrow> err = Some e \<and> predictions st' = predictions st
            | Inr score \<Rightarrow> err = None \<and> predictions st' = predictions st @ [(item_field k line, score)]))"
  by (auto simp: row_step_def complete_row_def user_field_def item_field_def request_for_def
        score_row_def Let_def split: list.splits sum.splits if_splits)

lemma rows_scored:
  "for_each (row_step k env m uid) lines st = (None, st') \<Longrightarrow>
     requests st' = requests st @ map (request_for env m k) (rows_of_user k uid lines)
   \<and> map fst (predictions st') = map fst (predictions st) @ map (item_field k) (rows_of_user k uid lines)
   \<and> list_all (complete_row k) lines
   \<and> user st' = (if lines = [] then user st else Some (user_field k (last lines)))
   \<and> stdout st' = stdout st \<and> recommendations st' = recommendations st"
proof (induction lines arbitrary: st)
  case Nil
  then show ?case by (simp add: rows_of_user_def)
next
  case (Cons l ls)
  obtain e1 st1 where step: "row_step k env m uid l st = (e1, st1)"
    by (cases "row_step k env m uid l st")
  with Cons.prems have e1: "e1 = None" and rest: "for_each (row_step k env m uid) ls st1 = (None, st')"
    by (auto split: option.splits)
  note ih = Cons.IH [OF rest]
  from row_step_cases [OF step] e1 show ?case
    using ih by (auto simp: rows_of_user_def split: sum.splits)
qed

lemma rows_requested_prefix:
  "for_each (row_step k env m uid) lines st = (err, st') \<Longrightarrow>
     prefix (requests st') (requests st @ map (request_for env m k) (rows_of_user k uid lines))
   \<and> prefix (map fst (predictions st'))
        (map fst (predictions st) @ map (item_field k) (rows_of_user k uid lines))"
proof (induction lines arbitrary: st)
  case Nil
  then show ?case by (simp add: rows_of_user_def)
next
  case (Cons l ls)
  obtain e1 st1 where step: "row_step k env m uid l st = (e1, st1)"
    by (cases "row_step k env m uid l st")
  show ?case
  proof (cases e1)
    case None
    with Cons.prems step have rest: "for_each (row_step k env m uid) ls st1 = (err, st')"
      by simp
    note ih = Cons.IH [OF rest]
    from row_step_cases [OF step] None show ?thesis
      using ih by (auto simp: rows_of_user_def split: sum.splits)
  next
    case (Some e)
    with Cons.prems step have "st' = st1" by simp
    with row_step_cases [OF step] Some show ?thesis
      by (auto simp: rows_of_user_def split: sum.splits)
  qed
qed

lemma movie_show_keeps:
  "for_each (movie_show env) recs st = (err, st') \<Longrightarrow>
     requests st' = requests st \<and> predictions st' = predictions st
   \<and> recommendations st' = recommendations st \<and> user st' = user st
   \<and> prefix (stdout st) (stdout st')"
proof (induction recs arbitrary: st)
  case Nil
  then show ?case by simp
next
  case (Cons r rs)
  show ?case
  proof (cases "movie_show env r st")
    case (Pair e1 st1)
    then have one: "requests st1 = requests st \<and> predictions st1 = predictions st
        \<and> recommendations st1 = recommendations st \<and> user st1 = user st
        \<and> prefix (stdout st) (stdout st1)"
      by (auto simp: movie_show_def print_py_def split: sum.splits)
    show ?thesis
    proof (cases e1)
      case None
      with Cons.prems Pair have "for_each (movie_show env) rs st1 = (err, st')" by simp
      from Cons.IH [OF this] one show ?thesis by (auto intro: prefix_order.trans)
    next
      case (Some e)
      with Cons.prems Pair have "st' = st1" by simp
      with one show ?thesis by simp
    qed
  qed
qed

lemma music_show_keeps:
  "for_each (music_show env) recs st = (err, st') \<Longrightarrow>
     requests st' = requests st \<and> predictions st' = predictions st
   \<and> recommendations st' = recommendations st \<and> user st' = user st
   \<and> prefix (stdout st) (stdout st')"
proof (induction recs arbitrary: st)
  case Nil
  then show ?case by simp
next
  case (Cons r rs)
  show ?case
  proof (cases "music_show env r st")
    case (Pair e1 st1)
    then have one: "requests st1 = requests st \<and> predictions st1 = predictions st
        \<and> recommendations st1 = recommendations st \<and> user st1 = user st
        \<and> prefix (stdout st) (stdout st1)"
      by (auto simp: music_show_def print_py_def split: sum.splits)
    show ?thesis
    proof (cases e1)
      case None
      with Cons.prems Pair have "for_each (music_show env) rs st1 = (err, st')" by simp
      from Cons.IH [OF this] one show ?thesis by (auto intro: prefix_order.trans)
    next
      case (Some e)
      with Cons.prems Pair have "st' = st1" by simp
      with one show ?thesis by simp
    qed
  qed
qed

lemma movie_display_effect:
  "movie_display env uid st = (err, st') \<Longrightarrow>
     requests st' = requests st \<and> predictions st' = predictions st \<and> user st' = user st
   \<and> recommendations st' = take 9 (sorted_py snd True (predictions st))
   \<and> prefix (stdout st @ [''Recommended movies for user with id :  '' @ uid]) (stdout st')"
  by (auto simp: movie_display_def Let_def print_py_def dest!: movie_show_keeps)

lemma music_display_effect:
  "music_display env st = (err, st') \<Longrightarrow>
     requests st' = requests st \<and> predictions st' = predictions st \<and> user st' = user st
   \<and> recommendations st' = take 9 (sorted_py snd True (predictions st))
   \<and> (case user st of
         None \<Rightarrow> err = Some UnboundLocalError \<and> stdout st' = stdout st
       | Some u \<Rightarrow> prefix (stdout st @ [''Recommended songs for user with id :  '' @ u]) (stdout st'))"
  by (auto simp: music_display_def Let_def print_py_def split: option.splits dest!: music_show_keeps)

subsection \<open>Whole runs\<close>

lemma movie_run:
  assumes "movie_scoring env contents m (str_py user_id) = (e1, st1)"
    and "get_recommendations_for_user env contents m user_id sp = (err, st)"
  shows "requests st = requests st1 \<and> predictions st = predictions st1 \<and> user st = user st1
    \<and> (if e1 = None \<and> sp then movie_display env (str_py user_id) st1 = (err, st)
        else st = st1 \<and> err = e1)"
  using assms
  by (auto simp: get_recommendations_for_user_def split: option.splits if_splits
        dest: movie_display_effect)

lemma music_run:
  assumes "music_scoring env contents m (str_py user_id) = (e1, st1)"
    and "get_music_recommendations_for_user env contents m user_id sp = (err, st)"
  shows "requests st = requests st1 \<and> predictions st = predictions st1 \<and> user st = user st1
    \<and> (if e1 = None \<and> sp then music_display env st1 = (err, st)
        else st = st1 \<and> err = e1)"
  using assms
  by (auto simp: get_music_recommendations_for_user_def split: option.splits if_splits
        dest: music_display_effect)

lemma movie_requests_prefix:
  "prefix (requests (snd (get_recommendations_for_user env contents m user_id sp)))
     (map (request_for env m 2) (rows_of_user 2 (str_py user_id) (butlast contents)))
   \<and> prefix (map fst (predictions (snd (get_recommendations_for_user env contents m user_id sp))))
     (map (item_field 2) (rows_of_user 2 (str_py user_id) (butlast contents)))"
proof -
  obtain e1 st1 where sc: "movie_scoring env contents m (str_py user_id) = (e1, st1)"
    by (cases "movie_scoring env contents m (str_py user_id)")
  obtain err st where run: "get_recommendations_for_user env contents m user_id sp = (err, st)"
    by (cases "get_recommendations_for_user env contents m user_id sp")
  from sc have "for_each (row_step 2 env m (str_py user_id)) (butlast contents) initial_state = (e1, st1)"
    by (simp add: movie_scoring_rows)
  from rows_requested_prefix [OF this] movie_run [OF sc run] run show ?thesis
    by (simp add: initial_state_def)
qed

lemma music_requests_prefix:
  "prefix (requests (snd (get_music_recommendations_for_user env contents m user_id sp)))
     (map (request_for env m 1) (rows_of_user 1 (str_py user_id) (butlast contents)))
   \<and> prefix (map fst (predictions (snd (get_music_recommendations_for_user env contents m user_id sp))))
     (map (item_field 1) (rows_of_user 1 (str_py user_id) (butlast contents)))"
proof -
  obtain e1 st1 where sc: "music_scoring env contents m (str_py user_id) = (e1, st1)"
    by (cases "music_scoring env contents m (str_py user_id)")
  obtain err st where run: "get_music_recommendations_for_user env contents m user_id sp = (err, st)"
    by (cases "get_music_recommendations_for_user env contents m user_id sp")
  from sc have "for_each (row_step 1 env m (str_py user_id)) (butlast contents) initial_state = (e1, st1)"
    by (simp add: music_scoring_rows)
  from rows_requested_prefix [OF this] music_run [OF sc run] run show ?thesis
    by (simp add: initial_state_def)
qed

lemma movie_scored_exactly:
  assumes ok: "fst (movie_scoring env contents m (str_py user_id)) = None"
  shows "requests (snd (get_recommendations_for_user env contents m user_id sp))
       = map (request_for env m 2) (rows_of_user 2 (str_py user_id) (butlast contents))
     \<and> map fst (predictions (snd (get_recommendations_for_user env contents m user_id sp)))
       = map (item_field 2) (rows_of_user 2 (str_py user_id) (butlast contents))
     \<and> list_all (complete_row 2) (butlast contents)"
proof -
  obtain st1 where sc: "movie_scoring env contents m (str_py user_id) = (None, st1)"
    using ok by (cases "movie_scoring env contents m (str_py user_id)") auto
  obtain err st where run: "get_recommendations_for_user env contents m user_id sp = (err, st)"
    by (cases "get_recommendations_for_user env contents m user_id sp")
  from sc have "for_each (row_step 2 env m (str_py user_id)) (butlast contents) initial_state = (None, st1)"
    by (simp add: movie_scoring_rows)
  from rows_scored [OF this] movie_run [OF sc run] run show ?thesis
    by (simp add: initial_state_def)
qed

lemma music_scored_exactly:
  assumes ok: "fst (music_scoring env contents m (str_py user_id)) = None"
  shows "requests (snd (get_music_recommendations_for_user env contents m user_id sp))
       = map (request_for env m 1) (rows_of_user 1 (str_py user_id) (butlast contents))
     \<and> map fst (predictions (snd (get_music_recommendations_for_user env contents m user_id sp)))
       = map (item_field 1) (rows_of_user 1 (str_py user_id) (butlast contents))
     \<and> list_all (complete_row 1) (butlast contents)"
proof -
  obtain st1 where sc: "music_scoring env contents m (str_py user_id) = (None, st1)"
    using ok by (cases "music_scoring env contents m (str_py user_id)") auto
  obtain err st where run: "get_music_recommendations_for_user env contents m user_id sp = (err, st)"
    by (cases "get_music_recommendations_for_user env contents m user_id sp")
  from sc have "for_each (row_step 1 env m (str_py user_id)) (butlast contents) initial_state = (None, st1)"
    by (simp add: music_scoring_rows)
  from rows_scored [OF this] music_run [OF sc run] run show ?thesis
    by (simp add: initial_state_def)
qed

lemma movie_selected:
  assumes ok: "fst (movie_scoring env contents m (str_py user_id)) = None"
  shows "recommendations (snd (get_recommendations_for_user env contents m user_id True))
       = take 9 (sorted_py snd True
           (predictions (snd (get_recommendations_for_user env contents m user_id True))))"
proof -
  obtain st1 where sc: "movie_scoring env contents m (str_py user_id) = (None, st1)"
    using ok by (cases "movie_scoring env contents m (str_py user_id)") auto
  obtain err st where run: "get_recommendations_for_user env contents m user_id True = (err, st)"
    by (cases "get_recommendations_for_user env contents m user_id True")
  from movie_run [OF sc run] have "movie_display env (str_py user_id) st1 = (err, st)" by simp
  from movie_display_effect [OF this] run show ?thesis by simp
qed

lemma music_selected:
  assumes ok: "fst (music_scoring env contents m (str_py user_id)) = None"
  shows "recommendations (snd (get_music_recommendations_for_user env contents m user_id True))
       = take 9 (sorted_py snd True
           (predictions (snd (get_music_recommendations_for_user env contents m user_id True))))"
proof -
  obtain st1 where sc: "music_scoring env contents m (str_py user_id) = (None, st1)"
    using ok by (cases "music_scoring env contents m (str_py user_id)") auto
  obtain err st where run: "get_music_recommendations_for_user env contents m user_id True = (err, st)"
    by (cases "get_music_recommendations_for_user env contents m user_id True")
  from music_run [OF sc run] have "music_display env st1 = (err, st)" by simp
  from music_display_effect [OF this] run show ?thesis by simp
qed

subsection \<open>The sort of the display stage\<close>

lemma sorted_py_stable:
  "filter (\<lambda>p. key p = s) (sorted_py key True ps) = filter (\<lambda>p. key p = s) ps"
  by (simp add: sorted_py_def sort_key_stable flip: rev_filter)

lemma sorted_py_descending:
  "sorted_wrt (\<lambda>a b. key b \<le> key a) (sorted_py key True ps)"
proof -
  have "sorted (map key (sort_key key (rev ps)))" by simp
  then have "sorted_wrt (\<lambda>a b. key a \<le> key b) (sort_key key (rev ps))"
    by (simp only: sorted_map)
  then show ?thesis
    by (simp add: sorted_py_def sorted_wrt_rev)
qed

lemma mset_sorted_py: "mset (sorted_py key rv ps) = mset ps"
  by (simp add: sorted_py_def)

lemma filter_take_prefix: "prefix (filter P (take n xs)) (filter P xs)"
proof -
  have "filter P xs = filter P (take n xs) @ filter P (drop n xs)"
    by (simp flip: filter_append)
  then show ?thesis by (metis prefixI)
qed

lemma find_filter_first:
  "find P xs = (case filter P xs of [] \<Rightarrow> None | x # _ \<Rightarrow> Some x)"
  by (induction xs) auto

section \<open>The claims\<close>

subsection \<open>C1: the end-to-end scenario\<close>

text \<open>
  C1, as stated, fails. A candidate file of exactly three rows of user 100 (items 1, 2, 3,
  scored 0.9, 0.5, 0.7) has three lines, and the loop runs over
  \<^verbatim>\<open>range(0, len(contents) - 1)\<close>: the third row is never sent to the endpoint, and the
  routine selects and prints item 1 and item 2 only.
\<close>

theorem scenario_three_rows_counterexample:
  "recommendations (snd (get_recommendations_for_user scenario scenario_rows movie_model (PyInt 100) True))
     \<noteq> [(''1'', ''0.9''), (''3'', ''0.7''), (''2'', ''0.5'')]
   \<and> get_recommendations_for_user scenario scenario_rows movie_model (PyInt 100) True
     = (None,
        \<lparr>predictions = [(''1'', ''0.9''), (''2'', ''0.5'')],
         user = Some ''100'',
         recommendations = [(''1'', ''0.9''), (''2'', ''0.5'')],
         requests = map (request_for scenario movie_model 2) (butlast scenario_rows),
         stdout = [''Recommended movies for user with id :  100'',
                   [CHR 0x09] @ '' Toy Story (1995)'', [CHR 0x09] @ '' GoldenEye (1995)'']\<rparr>)"
  by code_simp

text \<open>
  C1, amended: when the three rows are followed by one more line, whatever it holds, the
  movie routine scores the three rows, selects item 1 (0.9), then item 3 (0.7), then
  item 2 (0.5), all three after the truncation to nine, and prints their titles in that
  order.
\<close>

theorem scenario_three_rows_and_final_line:
  "get_recommendations_for_user scenario (scenario_rows @ [final_line]) movie_model (PyInt 100) True
     = (None,
        \<lparr>predictions = [(''1'', ''0.9''), (''2'', ''0.5''), (''3'', ''0.7'')],
         user = Some ''100'',
         recommendations = [(''1'', ''0.9''), (''3'', ''0.7''), (''2'', ''0.5'')],
         requests = map (request_for scenario movie_model 2) scenario_rows,
         stdout = [''Recommended movies for user with id :  100'',
                   [CHR 0x09] @ '' Toy Story (1995)'', [CHR 0x09] @ '' Four Rooms (1995)'',
                   [CHR 0x09] @ '' GoldenEye (1995)'']\<rparr>)"
proof -
  have "get_recommendations_for_user scenario (scenario_rows @ [final_line]) movie_model (PyInt 100) True
      = get_recommendations_for_user scenario (scenario_rows @ [[]]) movie_model (PyInt 100) True"
    by (simp add: get_recommendations_for_user_def movie_scoring_rows)
  also have "\<dots> = (None,
        \<lparr>predictions = [(''1'', ''0.9''), (''2'', ''0.5''), (''3'', ''0.7'')],
         user = Some ''100'',
         recommendations = [(''1'', ''0.9''), (''3'', ''0.7''), (''2'', ''0.5'')],
         requests = map (request_for scenario movie_model 2) scenario_rows,
         stdout = [''Recommended movies for user with id :  100'',
                   [CHR 0x09] @ '' Toy Story (1995)'', [CHR 0x09] @ '' Four Rooms (1995)'',
                   [CHR 0x09] @ '' GoldenEye (1995)'']\<rparr>)"
    by code_simp
  finally show ?thesis .
qed

subsection \<open>C2: the last line\<close>

text \<open>
  C2: for every candidate file with at least one line, the last line is never scored, in
  the movie and in the music routine. The whole outcome of a call (exception, requests
  sent, accumulated pairs, selected entries, printed lines) is the same whatever the last
  line holds, and the requests sent and the items accumulated are an initial part of
  those of the rows of the requested user among the lines before the last one.
\<close>

theorem last_line_never_scored:
  "get_recommendations_for_user env (rows @ [last_line]) m user_id sp
     = get_recommendations_for_user env (rows @ [other_line]) m user_id sp
   \<and> get_music_recommendations_for_user env (rows @ [last_line]) m user_id sp
     = get_music_recommendations_for_user env (rows @ [other_line]) m user_id sp
   \<and> prefix (requests (snd (get_recommendations_for_user env (rows @ [last_line]) m user_id sp)))
       (map (request_for env m 2) (rows_of_user 2 (str_py user_id) rows))
   \<and> prefix (map fst (predictions (snd (get_recommendations_for_user env (rows @ [last_line]) m user_id sp))))
       (map (item_field 2) (rows_of_user 2 (str_py user_id) rows))
   \<and> prefix (requests (snd (get_music_recommendations_for_user env (rows @ [last_line]) m user_id sp)))
       (map (request_for env m 1) (rows_of_user 1 (str_py user_id) rows))
   \<and> prefix (map fst (predictions (snd (get_music_recommendations_for_user env (rows @ [last_line]) m user_id sp))))
       (map (item_field 1) (rows_of_user 1 (str_py user_id) rows))"
proof -
  have "get_recommendations_for_user env (rows @ [last_line]) m user_id sp
     = get_recommendations_for_user env (rows @ [other_line]) m user_id sp"
    by (simp add: get_recommendations_for_user_def movie_scoring_rows)
  moreover have "get_music_recommendations_for_user env (rows @ [last_line]) m user_id sp
     = get_music_recommendations_for_user env (rows @ [other_line]) m user_id sp"
    by (simp add: get_music_recommendations_for_user_def music_scoring_rows)
  moreover note movie_requests_prefix [of env "rows @ [last_line]" m user_id sp]
    music_requests_prefix [of env "rows @ [last_line]" m user_id sp]
  ultimately show ?thesis by simp
qed

subsection \<open>C3: the order of the display stage\<close>

text \<open>
  C3: for every accumulated list of pairs, the display stage sorts the pairs by the raw
  text of the score, in descending lexicographic order of strings: the sorted list is a
  rearrangement of the accumulated one, the score texts never increase along it, and the
  display stage of either routine selects its first nine entries. The scores 9.0, 10.0,
  2.5 come out as 9.0, 2.5, 10.0, which is not their numeric order.
\<close>

theorem sort_is_text_order_descending:
  "sorted_wrt (\<lambda>a b. snd b \<le> snd a) (sorted_py snd True (ps :: (string \<times> string) list))
   \<and> mset (sorted_py snd True ps) = mset ps
   \<and> recommendations (snd (movie_display env uid st)) = take 9 (sorted_py snd True (predictions st))
   \<and> recommendations (snd (music_display env st)) = take 9 (sorted_py snd True (predictions st))
   \<and> sorted_py snd True [(a, ''9.0''), (b, ''10.0''), (c, ''2.5'')]
       = [(a, ''9.0''), (c, ''2.5''), (b, ''10.0'')]"
proof -
  have d1: "recommendations (snd (movie_display env uid st)) = take 9 (sorted_py snd True (predictions st))"
    using movie_display_effect [of env uid st] by (cases "movie_display env uid st") simp
  have d2: "recommendations (snd (music_display env st)) = take 9 (sorted_py snd True (predictions st))"
    using music_display_effect [of env st] by (cases "music_display env st") simp
  have ex: "sorted_py snd True [(a, ''9.0''), (b, ''10.0''), (c, ''2.5'')]
       = [(a, ''9.0''), (c, ''2.5''), (b, ''10.0'')]"
    by (simp add: sorted_py_def less_eq_char_def)
  from sorted_py_descending [of snd ps] mset_sorted_py [of snd True ps] d1 d2 ex
  show ?thesis by simp
qed

subsection \<open>C4: how many entries are selected\<close>

text \<open>
  C4, as stated, fails: the rows of the requested user are counted over the whole file,
  but a matching row on the last line is never scored. In the files of three rows of user
  100, two entries are selected, not \<open>min 9 3\<close>.
\<close>

theorem selected_count_counterexample:
  "length (recommendations (snd
      (get_recommendations_for_user scenario scenario_rows movie_model (PyInt 100) True))) = 2
   \<and> min 9 (length (rows_of_user 2 (str_py (PyInt 100)) scenario_rows)) = 3
   \<and> length (recommendations (snd
      (get_music_recommendations_for_user scenario scenario_music_rows music_model (PyStr ''100'') True))) = 2
   \<and> min 9 (length (rows_of_user 1 (str_py (PyStr ''100'')) scenario_music_rows)) = 3"
  by code_simp

subsection \<open>Evaluations on the sample sessions\<close>

lemma str_py_100: "str_py (PyInt 100) = ''100''"
  by code_simp

lemma split_long_row:
  "split_py CHR '','' (''5,5,100,1,0,1'' @ nl) = [''5'', ''5'', ''100'', ''1'', ''0'', ''1'' @ nl]"
  by code_simp

lemma long_rows_scored:
  "for_each (row_step 2 scenario movie_model ''100'') (butlast long_rows) initial_state
     = (None, initial_state
          \<lparr>predictions := replicate 10 (''1'', ''0.9''), user := Some ''100'',
           requests := replicate 10 (request_for scenario movie_model 2 (''5,5,100,1,0,1'' @ nl))\<rparr>)"
  by (simp add: long_rows_def eval_nat_numeral row_step_def fields_after_def split_long_row
        score_row_def request_for_def initial_state_def scenario_def table_endpoint_def nl_def
        Let_def)

text \<open>
  C4, amended: in a call with \<^verbatim>\<open>show_predictions\<close> true whose scoring loop raises no
  exception, the entries selected for display are the first nine of the sorted list (all
  of them when there are fewer), and their number is the minimum of nine and the
  number of rows of the requested user among the lines before the last one.
\<close>

theorem selected_count:
  "(fst (movie_scoring env contents m (str_py user_id)) = None \<longrightarrow>
      recommendations (snd (get_recommendations_for_user env contents m user_id True))
        = take 9 (sorted_py snd True
            (predictions (snd (get_recommendations_for_user env contents m user_id True))))
      \<and> length (recommendations (snd (get_recommendations_for_user env contents m user_id True)))
        = min 9 (length (rows_of_user 2 (str_py user_id) (butlast contents))))
   \<and> (fst (music_scoring env contents m (str_py user_id)) = None \<longrightarrow>
      recommendations (snd (get_music_recommendations_for_user env contents m user_id True))
        = take 9 (sorted_py snd True
            (predictions (snd (get_music_recommendations_for_user env contents m user_id True))))
      \<and> length (recommendations (snd (get_music_recommendations_for_user env contents m user_id True)))
        = min 9 (length (rows_of_user 1 (str_py user_id) (butlast contents))))"
proof (intro conjI impI)
  assume ok: "fst (movie_scoring env contents m (str_py user_id)) = None"
  let ?st = "snd (get_recommendations_for_user env contents m user_id True)"
  show sel: "recommendations ?st = take 9 (sorted_py snd True (predictions ?st))"
    by (rule movie_selected [OF ok])
  have "length (predictions ?st) = length (map fst (predictions ?st))" by simp
  also have "\<dots> = length (rows_of_user 2 (str_py user_id) (butlast contents))"
    using movie_scored_exactly [OF ok, of True] by simp
  finally have "length (predictions ?st) = length (rows_of_user 2 (str_py user_id) (butlast contents))" .
  moreover have "length (sorted_py snd True (predictions ?st)) = length (predictions ?st)"
    by (simp add: sorted_py_def)
  ultimately show "length (recommendations ?st) = min 9 (length (rows_of_user 2 (str_py user_id) (butlast contents)))"
    by (simp add: sel min.commute)
next
  assume ok: "fst (music_scoring env contents m (str_py user_id)) = None"
  let ?st = "snd (get_music_recommendations_for_user env contents m user_id True)"
  show sel: "recommendations ?st = take 9 (sorted_py snd True (predictions ?st))"
    by (rule music_selected [OF ok])
  have "length (predictions ?st) = length (map fst (predictions ?st))" by simp
  also have "\<dots> = length (rows_of_user 1 (str_py user_id) (butlast contents))"
    using music_scored_exactly [OF ok, of True] by simp
  finally have "length (predictions ?st) = length (rows_of_user 1 (str_py user_id) (butlast contents))" .
  moreover have "length (sorted_py snd True (predictions ?st)) = length (predictions ?st)"
    by (simp add: sorted_py_def)
  ultimately show "length (recommendations ?st) = min 9 (length (rows_of_user 1 (str_py user_id) (butlast contents)))"
    by (simp add: sel min.commute)
qed

theorem selected_count_witness:
  "fst (movie_scoring scenario long_rows movie_model (str_py (PyInt 100))) = None
   \<and> length (rows_of_user 2 (str_py (PyInt 100)) (butlast long_rows)) = 10
   \<and> length (recommendations (snd
        (get_recommendations_for_user scenario long_rows movie_model (PyInt 100) True))) = 9
   \<and> fst (music_scoring scenario scenario_music_rows music_model (str_py (PyStr ''100''))) = None
   \<and> length (rows_of_user 1 (str_py (PyStr ''100'')) (butlast scenario_music_rows)) = 2
   \<and> length (recommendations (snd
        (get_music_recommendations_for_user scenario scenario_music_rows music_model (PyStr ''100'') True))) = 2"
proof -
  have h1: "fst (movie_scoring scenario long_rows movie_model (str_py (PyInt 100))) = None"
    by (simp only: movie_scoring_rows str_py_100 long_rows_scored fst_conv)
  have n1: "length (rows_of_user 2 (str_py (PyInt 100)) (butlast long_rows)) = 10"
    by code_simp
  have h2: "fst (music_scoring scenario scenario_music_rows music_model (str_py (PyStr ''100''))) = None"
    by code_simp
  have n2: "length (rows_of_user 1 (str_py (PyStr ''100'')) (butlast scenario_music_rows)) = 2"
    by code_simp
  have "length (recommendations (snd
        (get_recommendations_for_user scenario long_rows movie_model (PyInt 100) True)))
      = min 9 (length (rows_of_user 2 (str_py (PyInt 100)) (butlast long_rows)))"
    using selected_count [of scenario long_rows movie_model "PyInt 100"] h1 by blast
  also have "\<dots> = 9"
    unfolding n1 by simp
  finally have c1: "length (recommendations (snd
        (get_recommendations_for_user scenario long_rows movie_model (PyInt 100) True))) = 9" .
  have "length (recommendations (snd
        (get_music_recommendations_for_user scenario scenario_music_rows music_model (PyStr ''100'') True)))
      = min 9 (length (rows_of_user 1 (str_py (PyStr ''100'')) (butlast scenario_music_rows)))"
    using selected_count [of scenario scenario_music_rows music_model "PyStr ''100''"] h2 by blast
  also have "\<dots> = 2"
    unfolding n2 by simp
  finally have c2: "length (recommendations (snd
        (get_music_recommendations_for_user scenario scenario_music_rows music_model (PyStr ''100'') True))) = 2" .
  from h1 n1 c1 h2 n2 c2 show ?thesis by blast
qed

subsection \<open>C5: which rows are scored\<close>

text \<open>
  C5, as stated, fails for a row on the last line: in a file with rows of the users 100,
  200 and 100, the third row carries the requested user id, and no request is sent for
  it; the only request is the one of the first row.
\<close>

theorem matching_last_row_counterexample:
  "user_field 2 (mixed_rows ! 2) = str_py (PyInt 100)
   \<and> request_for scenario movie_model 2 (mixed_rows ! 2)
       \<noteq> request_for scenario movie_model 2 (mixed_rows ! 0)
   \<and> get_recommendations_for_user scenario mixed_rows movie_model (PyInt 100) False
       = (None, initial_state
            \<lparr>predictions := [(''1'', ''0.9'')], user := Some ''200'',
             requests := [request_for scenario movie_model 2 (mixed_rows ! 0)]\<rparr>)"
  by code_simp

text \<open>
  C5, amended: in a call whose scoring loop raises no exception, the requests sent are,
  in file order, exactly those of the lines before the last one whose user field equals
  \<^verbatim>\<open>str(user_id)\<close> as a string, and the items accumulated are the item fields
  of the same lines. The user field is compared as text, as it stands in the line. In
  such a call every line before the last one is a complete row.
\<close>

theorem scored_iff_user_matches:
  "(fst (movie_scoring env contents m (str_py user_id)) = None \<longrightarrow>
      requests (snd (get_recommendations_for_user env contents m user_id sp))
        = map (request_for env m 2) (rows_of_user 2 (str_py user_id) (butlast contents))
      \<and> map fst (predictions (snd (get_recommendations_for_user env contents m user_id sp)))
        = map (item_field 2) (rows_of_user 2 (str_py user_id) (butlast contents))
      \<and> list_all (complete_row 2) (butlast contents))
   \<and> (fst (music_scoring env contents m (str_py user_id)) = None \<longrightarrow>
      requests (snd (get_music_recommendations_for_user env contents m user_id sp))
        = map (request_for env m 1) (rows_of_user 1 (str_py user_id) (butlast contents))
      \<and> map fst (predictions (snd (get_music_recommendations_for_user env contents m user_id sp)))
        = map (item_field 1) (rows_of_user 1 (str_py user_id) (butlast contents))
      \<and> list_all (complete_row 1) (butlast contents))"
  using movie_scored_exactly [of env contents m user_id sp]
    music_scored_exactly [of env contents m user_id sp]
  by blast

theorem scored_iff_user_matches_witness:
  "fst (movie_scoring scenario (mixed_rows @ [[]]) movie_model (str_py (PyInt 100))) = None
   \<and> rows_of_user 2 (str_py (PyInt 100)) (butlast (mixed_rows @ [[]])) = [mixed_rows ! 0, mixed_rows ! 2]
   \<and> requests (snd (get_recommendations_for_user scenario (mixed_rows @ [[]]) movie_model (PyInt 100) True))
       = map (request_for scenario movie_model 2) [mixed_rows ! 0, mixed_rows ! 2]
   \<and> fst (music_scoring scenario (mixed_music_rows @ [[]]) music_model (str_py (PyStr ''100''))) = None
   \<and> rows_of_user 1 (str_py (PyStr ''100'')) (butlast (mixed_music_rows @ [[]]))
       = [mixed_music_rows ! 0, mixed_music_rows ! 2]
   \<and> requests (snd (get_music_recommendations_for_user scenario (mixed_music_rows @ [[]]) music_model (PyStr ''100'') True))
       = map (request_for scenario music_model 1) [mixed_music_rows ! 0, mixed_music_rows ! 2]"
proof -
  have h1: "fst (movie_scoring scenario (mixed_rows @ [[]]) movie_model (str_py (PyInt 100))) = None"
    by code_simp
  have r1: "rows_of_user 2 (str_py (PyInt 100)) (butlast (mixed_rows @ [[]])) = [mixed_rows ! 0, mixed_rows ! 2]"
    by code_simp
  have h2: "fst (music_scoring scenario (mixed_music_rows @ [[]]) music_model (str_py (PyStr ''100''))) = None"
    by code_simp
  have r2: "rows_of_user 1 (str_py (PyStr ''100'')) (butlast (mixed_music_rows @ [[]]))
       = [mixed_music_rows ! 0, mixed_music_rows ! 2]"
    by code_simp
  from scored_iff_user_matches [of scenario "mixed_rows @ [[]]" movie_model "PyInt 100" True]
    scored_iff_user_matches [of scenario "mixed_music_rows @ [[]]" music_model "PyStr ''100''" True]
    h1 h2
  show ?thesis by (simp only: r1 r2 simp_thms)
qed

subsection \<open>C6: the fields of a row\<close>

text \<open>
  C6: the loop body splits the line at commas, removes the leading label fields (two in
  the movie routine, one in the music routine) and takes the next two fields as user and
  item: the user is stored in the loop variable and compared with the requested id, and
  the item goes with the remaining fields to the scoring of the row.
\<close>

theorem label_fields_removed:
  "(split_py CHR '','' line = label1 # label2 # u # item # features \<longrightarrow>
      movie_line env m uid line st
        = (if u = uid then score_row env m item (u # item # features) (st\<lparr>user := Some u\<rparr>)
           else (None, st\<lparr>user := Some u\<rparr>)))
   \<and> (split_py CHR '','' line = label1 # u # item # features \<longrightarrow>
      music_line env m uid line st
        = (if u = uid then score_row env m item (u # item # features) (st\<lparr>user := Some u\<rparr>)
           else (None, st\<lparr>user := Some u\<rparr>)))"
  by (simp add: movie_line_def music_line_def pop0_def subscript_def)

theorem label_fields_removed_witness:
  "split_py CHR '','' (''5,5,100,1,0,1'' @ nl) = ''5'' # ''5'' # ''100'' # ''1'' # [''0'', ''1'' @ nl]
   \<and> movie_line scenario movie_model ''100'' (''5,5,100,1,0,1'' @ nl) initial_state
       = score_row scenario movie_model ''1'' (''100'' # ''1'' # [''0'', ''1'' @ nl])
           (initial_state\<lparr>user := Some ''100''\<rparr>)
   \<and> split_py CHR '','' (''5,200,7,0,1'' @ nl) = ''5'' # ''200'' # ''7'' # [''0'', ''1'' @ nl]
   \<and> music_line scenario music_model ''100'' (''5,200,7,0,1'' @ nl) initial_state
       = (None, initial_state\<lparr>user := Some ''200''\<rparr>)"
proof -
  have s1: "split_py CHR '','' (''5,5,100,1,0,1'' @ nl) = ''5'' # ''5'' # ''100'' # ''1'' # [''0'', ''1'' @ nl]"
    by code_simp
  have s2: "split_py CHR '','' (''5,200,7,0,1'' @ nl) = ''5'' # ''200'' # ''7'' # [''0'', ''1'' @ nl]"
    by code_simp
  have "movie_line scenario movie_model ''100'' (''5,5,100,1,0,1'' @ nl) initial_state
       = (if ''100'' = ''100''
          then score_row scenario movie_model ''1'' (''100'' # ''1'' # [''0'', ''1'' @ nl])
                 (initial_state\<lparr>user := Some ''100''\<rparr>)
          else (None, initial_state\<lparr>user := Some ''100''\<rparr>))"
    using label_fields_removed [where line = "''5,5,100,1,0,1'' @ nl" and ?label1.0 = "''5''"
        and ?label2.0 = "''5''" and u = "''100''" and item = "''1''"
        and features = "[''0'', ''1'' @ nl]" and env = scenario and m = movie_model
        and uid = "''100''" and st = initial_state] s1
    by blast
  then have m1: "movie_line scenario movie_model ''100'' (''5,5,100,1,0,1'' @ nl) initial_state
       = score_row scenario movie_model ''1'' (''100'' # ''1'' # [''0'', ''1'' @ nl])
           (initial_state\<lparr>user := Some ''100''\<rparr>)"
    by simp
  have "music_line scenario music_model ''100'' (''5,200,7,0,1'' @ nl) initial_state
       = (if ''200'' = ''100''
          then score_row scenario music_model ''7'' (''200'' # ''7'' # [''0'', ''1'' @ nl])
                 (initial_state\<lparr>user := Some ''200''\<rparr>)
          else (None, initial_state\<lparr>user := Some ''200''\<rparr>))"
    using label_fields_removed [where line = "''5,200,7,0,1'' @ nl" and ?label1.0 = "''5''"
        and u = "''200''" and item = "''7''"
        and features = "[''0'', ''1'' @ nl]" and env = scenario and m = music_model
        and uid = "''100''" and st = initial_state] s2
    by blast
  then have m2: "music_line scenario music_model ''100'' (''5,200,7,0,1'' @ nl) initial_state
       = (None, initial_state\<lparr>user := Some ''200''\<rparr>)"
    by simp
  from s1 m1 s2 m2 show ?thesis by blast
qed

subsection \<open>C7: the payload of a matching row\<close>



subsection \<open>C8: title resolution\<close>

text \<open>
  The display loops against the resolution of the specification: each loop prints the
  titles of its entries up to the first entry whose resolution fails, and ends with the
  error of that entry.
\<close>

lemma movie_show_title:
  "movie_show env rec st
     = (case movie_title_for env rec of
          Inl e \<Rightarrow> (Some e, st)
        | Inr t \<Rightarrow> (None, st\<lparr>stdout := stdout st @ [title_line t]\<rparr>))"
  by (simp add: movie_show_def movie_title_for_def subscript_def find_filter_first print_py_def
        title_line_def split: sum.splits list.splits)

lemma music_show_title:
  "music_show env rec st
     = (case song_title_for env rec of
          Inl e \<Rightarrow> (Some e, st)
        | Inr t \<Rightarrow> (None, st\<lparr>stdout := stdout st @ [title_line t]\<rparr>))"
  by (simp add: music_show_def song_title_for_def subscript_def find_filter_first print_py_def
        title_line_def split: sum.splits list.splits)

lemma show_loop:
  assumes body: "\<And>rec st. body rec st
     = (case resolve rec of
          Inl e \<Rightarrow> (Some e, st)
        | Inr t \<Rightarrow> (None, st\<lparr>stdout := stdout st @ [title_line t]\<rparr>))"
  shows "for_each body recs st
     = (fst (titles_until_error resolve recs),
        st\<lparr>stdout := stdout st @ map title_line (snd (titles_until_error resolve recs))\<rparr>)"
proof (induction recs arbitrary: st)
  case Nil
  show ?case by simp
next
  case (Cons r rs)
  show ?case
  proof (cases "resolve r")
    case (Inl e)
    then have "for_each body (r # rs) st = (Some e, st)"
      by (simp add: body [of r st])
    with Inl show ?thesis by simp
  next
    case (Inr t)
    then have "for_each body (r # rs) st
        = for_each body rs (st\<lparr>stdout := stdout st @ [title_line t]\<rparr>)"
      by (simp add: body [of r st])
    with Inr show ?thesis by (simp add: Cons.IH)
  qed
qed

lemma movie_display_titles:
  "movie_display env uid st
     = (fst (titles_until_error (movie_title_for env) (take 9 (sorted_py snd True (predictions st)))),
        st\<lparr>recommendations := take 9 (sorted_py snd True (predictions st)),
           stdout := stdout st @ (''Recommended movies for user with id :  '' @ uid)
             # map title_line (snd (titles_until_error (movie_title_for env)
                 (take 9 (sorted_py snd True (predictions st)))))\<rparr>)"
  by (simp add: movie_display_def Let_def print_py_def show_loop [where body = "movie_show env", OF movie_show_title])

lemma music_display_titles:
  "user st = Some u \<Longrightarrow> music_display env st
     = (fst (titles_until_error (song_title_for env) (take 9 (sorted_py snd True (predictions st)))),
        st\<lparr>recommendations := take 9 (sorted_py snd True (predictions st)),
           stdout := stdout st @ (''Recommended songs for user with id :  '' @ u)
             # map title_line (snd (titles_until_error (song_title_for env)
                 (take 9 (sorted_py snd True (predictions st)))))\<rparr>)"
  by (simp add: music_display_def Let_def print_py_def show_loop [where body = "music_show env", OF music_show_title])

lemma titles_until_miss:
  "fst (titles_until_error resolve pre) = None \<Longrightarrow> resolve r = Inl e \<Longrightarrow>
     titles_until_error resolve (pre @ r # post) = (Some e, snd (titles_until_error resolve pre))"
  by (induction pre) (auto split: sum.splits)

lemma movie_run_titles:
  assumes ok: "fst (movie_scoring env contents m (str_py user_id)) = None"
  shows "fst (get_recommendations_for_user env contents m user_id True)
       = fst (titles_until_error (movie_title_for env)
           (recommendations (snd (get_recommendations_for_user env contents m user_id True))))
     \<and> stdout (snd (get_recommendations_for_user env contents m user_id True))
       = (''Recommended movies for user with id :  '' @ str_py user_id)
         # map title_line (snd (titles_until_error (movie_title_for env)
             (recommendations (snd (get_recommendations_for_user env contents m user_id True)))))"
proof -
  obtain st1 where sc: "movie_scoring env contents m (str_py user_id) = (None, st1)"
    using ok by (cases "movie_scoring env contents m (str_py user_id)") auto
  then have "for_each (row_step 2 env m (str_py user_id)) (butlast contents) initial_state = (None, st1)"
    by (simp add: movie_scoring_rows)
  from rows_scored [OF this] have out: "stdout st1 = []"
    by (simp add: initial_state_def)
  have "get_recommendations_for_user env contents m user_id True
      = movie_display env (str_py user_id) st1"
    by (simp add: get_recommendations_for_user_def sc)
  then show ?thesis
    by (simp add: movie_display_titles out)
qed

lemma music_run_titles:
  assumes ok: "fst (music_scoring env contents m (str_py user_id)) = None"
    and some: "2 \<le> length contents"
  shows "fst (get_music_recommendations_for_user env contents m user_id True)
       = fst (titles_until_error (song_title_for env)
           (recommendations (snd (get_music_recommendations_for_user env contents m user_id True))))
     \<and> stdout (snd (get_music_recommendations_for_user env contents m user_id True))
       = (''Recommended songs for user with id :  ''
            @ user_field 1 (contents ! (length contents - 2)))
         # map title_line (snd (titles_until_error (song_title_for env)
             (recommendations (snd (get_music_recommendations_for_user env contents m user_id True)))))"
proof -
  obtain st1 where sc: "music_scoring env contents m (str_py user_id) = (None, st1)"
    using ok by (cases "music_scoring env contents m (str_py user_id)") auto
  from some have ne: "butlast contents \<noteq> []"
    by (cases contents rule: rev_cases) auto
  have "last (butlast contents) = butlast contents ! (length (butlast contents) - 1)"
    using ne by (rule last_conv_nth)
  also have "\<dots> = contents ! (length contents - 2)"
    using some by (simp add: nth_butlast numeral_2_eq_2)
  finally have lst: "last (butlast contents) = contents ! (length contents - 2)" .
  from sc have "for_each (row_step 1 env m (str_py user_id)) (butlast contents) initial_state = (None, st1)"
    by (simp add: music_scoring_rows)
  from rows_scored [OF this] ne lst
  have out: "stdout st1 = []"
    and usr: "user st1 = Some (user_field 1 (contents ! (length contents - 2)))"
    by (simp_all add: initial_state_def)
  have "get_music_recommendations_for_user env contents m user_id True = music_display env st1"
    by (simp add: get_music_recommendations_for_user_def sc)
  then show ?thesis
    by (simp add: music_display_titles [OF usr] out)
qed

text \<open>
  C8: for a selected entry, the item id is converted to the key type of the metadata
  table (with \<^verbatim>\<open>int\<close> in the movie routine, with \<^verbatim>\<open>float\<close> in the music
  routine), and the title of the first metadata row whose key equals it is printed.
  When no row has that key, the lookup raises IndexError and the display loop stops there.

  For the routines themselves, in a call with \<^verbatim>\<open>show_predictions\<close> true whose scoring
  loop raises nothing (and, for the music routine, whose file has a line for the loop to
  examine): the call prints the header and then the resolved title of each selected
  entry, in order, up to the first entry whose resolution fails, and raises the error of
  that entry, or nothing when every entry resolves. In particular, when the entries
  before a selected entry resolve and its key is carried by no metadata row, the call
  raises IndexError after printing the titles of the entries before it: the entry is
  not skipped, and no later entry is shown.
\<close>

theorem title_resolution:
  "(int_py env (fst rec) = Inr k \<longrightarrow>
      movie_show env rec st
        = (case find (\<lambda>row. movie_id row = k) (movie_df env) of
             None \<Rightarrow> (Some IndexError, st)
           | Some row \<Rightarrow> (None, print_py [[CHR 0x09], movie_title row] st)))
   \<and> (int_py env (fst rec) = Inr k \<and> find (\<lambda>row. movie_id row = k) (movie_df env) = None \<longrightarrow>
      for_each (movie_show env) (rec # recs) st = (Some IndexError, st))
   \<and> (float_py env (fst rec) = Inr x \<longrightarrow>
      music_show env rec st
        = (case find (\<lambda>row. float_eq env (short_song_id row) x) (song_df env) of
             None \<Rightarrow> (Some IndexError, st)
           | Some row \<Rightarrow> (None, print_py [[CHR 0x09], title row] st)))
   \<and> (float_py env (fst rec) = Inr x
        \<and> find (\<lambda>row. float_eq env (short_song_id row) x) (song_df env) = None \<longrightarrow>
      for_each (music_show env) (rec # recs) st = (Some IndexError, st))
   \<and> (fst (movie_scoring env contents m (str_py user_id)) = None \<longrightarrow>
      fst (get_recommendations_for_user env contents m user_id True)
        = fst (titles_until_error (movie_title_for env)
            (recommendations (snd (get_recommendations_for_user env contents m user_id True))))
      \<and> stdout (snd (get_recommendations_for_user env contents m user_id True))
        = (''Recommended movies for user with id :  '' @ str_py user_id)
          # map title_line (snd (titles_until_error (movie_title_for env)
              (recommendations (snd (get_recommendations_for_user env contents m user_id True))))))
   \<and> (fst (movie_scoring env contents m (str_py user_id)) = None
        \<and> recommendations (snd (get_recommendations_for_user env contents m user_id True))
            = pre @ rec # post
        \<and> fst (titles_until_error (movie_title_for env) pre) = None
        \<and> int_py env (fst rec) = Inr k
        \<and> find (\<lambda>row. movie_id row = k) (movie_df env) = None \<longrightarrow>
      fst (get_recommendations_for_user env contents m user_id True) = Some IndexError
      \<and> stdout (snd (get_recommendations_for_user env contents m user_id True))
        = (''Recommended movies for user with id :  '' @ str_py user_id)
          # map title_line (snd (titles_until_error (movie_title_for env) pre)))
   \<and> (fst (music_scoring env contents m (str_py user_id)) = None \<and> 2 \<le> length contents \<longrightarrow>
      fst (get_music_recommendations_for_user env contents m user_id True)
        = fst (titles_until_error (song_title_for env)
            (recommendations (snd (get_music_recommendations_for_user env contents m user_id True))))
      \<and> stdout (snd (get_music_recommendations_for_user env contents m user_id True))
        = (''Recommended songs for user with id :  ''
             @ user_field 1 (contents ! (length contents - 2)))
          # map title_line (snd (titles_until_error (song_title_for env)
              (recommendations (snd (get_music_recommendations_for_user env contents m user_id True))))))
   \<and> (fst (music_scoring env contents m (str_py user_id)) = None \<and> 2 \<le> length contents
        \<and> recommendations (snd (get_music_recommendations_for_user env contents m user_id True))
            = pre @ rec # post
        \<and> fst (titles_until_error (song_title_for env) pre) = None
        \<and> float_py env (fst rec) = Inr x
        \<and> find (\<lambda>row. float_eq env (short_song_id row) x) (song_df env) = None \<longrightarrow>
      fst (get_music_recommendations_for_user env contents m user_id True) = Some IndexError
      \<and> stdout (snd (get_music_recommendations_for_user env contents m user_id True))
        = (''Recommended songs for user with id :  ''
             @ user_field 1 (contents ! (length contents - 2)))
          # map title_line (snd (titles_until_error (song_title_for env) pre)))"
proof -
  have movie: "movie_show env rec st
        = (case find (\<lambda>row. movie_id row = k) (movie_df env) of
             None \<Rightarrow> (Some IndexError, st)
           | Some row \<Rightarrow> (None, print_py [[CHR 0x09], movie_title row] st))"
    if "int_py env (fst rec) = Inr k"
    using that
    by (simp add: movie_show_def subscript_def find_filter_first split: list.splits)
  have music: "music_show env rec st
        = (case find (\<lambda>row. float_eq env (short_song_id row) x) (song_df env) of
             None \<Rightarrow> (Some IndexError, st)
           | Some row \<Rightarrow> (None, print_py [[CHR 0x09], title row] st))"
    if "float_py env (fst rec) = Inr x"
    using that
    by (simp add: music_show_def subscript_def find_filter_first split: list.splits)
  have bodies: "(int_py env (fst rec) = Inr k \<longrightarrow>
      movie_show env rec st
        = (case find (\<lambda>row. movie_id row = k) (movie_df env) of
             None \<Rightarrow> (Some IndexError, st)
           | Some row \<Rightarrow> (None, print_py [[CHR 0x09], movie_title row] st)))
   \<and> (int_py env (fst rec) = Inr k \<and> find (\<lambda>row. movie_id row = k) (movie_df env) = None \<longrightarrow>
      for_each (movie_show env) (rec # recs) st = (Some IndexError, st))
   \<and> (float_py env (fst rec) = Inr x \<longrightarrow>
      music_show env rec st
        = (case find (\<lambda>row. float_eq env (short_song_id row) x) (song_df env) of
             None \<Rightarrow> (Some IndexError, st)
           | Some row \<Rightarrow> (None, print_py [[CHR 0x09], title row] st)))
   \<and> (float_py env (fst rec) = Inr x
        \<and> find (\<lambda>row. float_eq env (short_song_id row) x) (song_df env) = None \<longrightarrow>
      for_each (music_show env) (rec # recs) st = (Some IndexError, st))"
    using movie music by (auto simp del: find.simps)
  have miss_movie: "titles_until_error (movie_title_for env) (pre @ rec # post)
      = (Some IndexError, snd (titles_until_error (movie_title_for env) pre))"
    if "fst (titles_until_error (movie_title_for env) pre) = None"
      and "int_py env (fst rec) = Inr k"
      and "find (\<lambda>row. movie_id row = k) (movie_df env) = None"
    using that by (intro titles_until_miss) (simp_all add: movie_title_for_def)
  have miss_music: "titles_until_error (song_title_for env) (pre @ rec # post)
      = (Some IndexError, snd (titles_until_error (song_title_for env) pre))"
    if "fst (titles_until_error (song_title_for env) pre) = None"
      and "float_py env (fst rec) = Inr x"
      and "find (\<lambda>row. float_eq env (short_song_id row) x) (song_df env) = None"
    using that by (intro titles_until_miss) (simp_all add: song_title_for_def)
  note run_movie = movie_run_titles [of env contents m user_id]
  note run_music = music_run_titles [of env contents m user_id]
  have routine_movie: "fst (get_recommendations_for_user env contents m user_id True) = Some IndexError
      \<and> stdout (snd (get_recommendations_for_user env contents m user_id True))
        = (''Recommended movies for user with id :  '' @ str_py user_id)
          # map title_line (snd (titles_until_error (movie_title_for env) pre))"
    if ok: "fst (movie_scoring env contents m (str_py user_id)) = None"
      and sel: "recommendations (snd (get_recommendations_for_user env contents m user_id True))
            = pre @ rec # post"
      and pre: "fst (titles_until_error (movie_title_for env) pre) = None"
      and key: "int_py env (fst rec) = Inr k"
      and none: "find (\<lambda>row. movie_id row = k) (movie_df env) = None"
    using run_movie [OF ok] unfolding sel miss_movie [OF pre key none] by simp
  have routine_music: "fst (get_music_recommendations_for_user env contents m user_id True) = Some IndexError
      \<and> stdout (snd (get_music_recommendations_for_user env contents m user_id True))
        = (''Recommended songs for user with id :  ''
             @ user_field 1 (contents ! (length contents - 2)))
          # map title_line (snd (titles_until_error (song_title_for env) pre))"
    if ok: "fst (music_scoring env contents m (str_py user_id)) = None"
      and some: "2 \<le> length contents"
      and sel: "recommendations (snd (get_music_recommendations_for_user env contents m user_id True))
            = pre @ rec # post"
      and pre: "fst (titles_until_error (song_title_for env) pre) = None"
      and key: "float_py env (fst rec) = Inr x"
      and none: "find (\<lambda>row. float_eq env (short_song_id row) x) (song_df env) = None"
    using run_music [OF ok some] unfolding sel miss_music [OF pre key none] by simp
  from bodies run_movie run_music routine_movie routine_music
  show ?thesis by blast
qed

theorem title_resolution_witness:
  "int_py scenario (fst (''2'', ''0.5'')) = Inr 2
   \<and> movie_show scenario (''2'', ''0.5'') initial_state
       = (None, print_py [[CHR 0x09], ''GoldenEye (1995)''] initial_state)
   \<and> int_py scenario (fst (''4'', ''0.8'')) = Inr 4
   \<and> find (\<lambda>row. movie_id row = 4) (movie_df scenario) = None
   \<and> for_each (movie_show scenario) [(''4'', ''0.8''), (''1'', ''0.9'')] initial_state
       = (Some IndexError, initial_state)
   \<and> float_py scenario (fst (''2'', ''0.5'')) = Inr (Finite 2)
   \<and> music_show scenario (''2'', ''0.5'') initial_state
       = (None, print_py [[CHR 0x09], ''Yellow''] initial_state)
   \<and> float_py scenario (fst (''4'', ''0.8'')) = Inr (Finite 4)
   \<and> find (\<lambda>row. float_eq scenario (short_song_id row) (Finite 4)) (song_df scenario) = None
   \<and> for_each (music_show scenario) [(''4'', ''0.8''), (''1'', ''0.9'')] initial_state
       = (Some IndexError, initial_state)
   \<and> fst (movie_scoring scenario tie_rows movie_model (str_py (PyInt 100))) = None
   \<and> get_recommendations_for_user scenario tie_rows movie_model (PyInt 100) True
       = (None, snd (get_recommendations_for_user scenario tie_rows movie_model (PyInt 100) True))
   \<and> stdout (snd (get_recommendations_for_user scenario tie_rows movie_model (PyInt 100) True))
       = [''Recommended movies for user with id :  100'', title_line ''Toy Story (1995)'',
          title_line ''GoldenEye (1995)'', title_line ''Copycat (1995)'']
   \<and> fst (movie_scoring gap_session gap_rows movie_model (str_py (PyInt 100))) = None
   \<and> recommendations (snd (get_recommendations_for_user gap_session gap_rows movie_model (PyInt 100) True))
       = [(''1'', ''0.9'')] @ (''4'', ''0.8'') # [(''2'', ''0.5'')]
   \<and> fst (titles_until_error (movie_title_for gap_session) [(''1'', ''0.9'')]) = None
   \<and> int_py gap_session (fst (''4'', ''0.8'')) = Inr 4
   \<and> find (\<lambda>row. movie_id row = 4) (movie_df gap_session) = None
   \<and> fst (get_recommendations_for_user gap_session gap_rows movie_model (PyInt 100) True)
       = Some IndexError
   \<and> stdout (snd (get_recommendations_for_user gap_session gap_rows movie_model (PyInt 100) True))
       = [''Recommended movies for user with id :  100'', title_line ''Toy Story (1995)'']
   \<and> fst (music_scoring gap_session gap_music_rows music_model (str_py (PyStr ''100''))) = None
   \<and> 2 \<le> length gap_music_rows
   \<and> recommendations (snd (get_music_recommendations_for_user gap_session gap_music_rows music_model (PyStr ''100'') True))
       = [(''1'', ''0.9'')] @ (''4'', ''0.8'') # [(''2'', ''0.5'')]
   \<and> fst (titles_until_error (song_title_for gap_session) [(''1'', ''0.9'')]) = None
   \<and> float_py gap_session (fst (''4'', ''0.8'')) = Inr (Finite 4)
   \<and> find (\<lambda>row. float_eq gap_session (short_song_id row) (Finite 4)) (song_df gap_session) = None
   \<and> fst (get_music_recommendations_for_user gap_session gap_music_rows music_model (PyStr ''100'') True)
       = Some IndexError
   \<and> stdout (snd (get_music_recommendations_for_user gap_session gap_music_rows music_model (PyStr ''100'') True))
       = [''Recommended songs for user with id :  100'', title_line ''Stronger'']"
proof -
  have i2: "int_py scenario (fst (''2'', ''0.5'')) = Inr 2"
    by code_simp
  have f2: "find (\<lambda>row. movie_id row = 2) (movie_df scenario)
      = Some \<lparr>movie_id = 2, movie_title = ''GoldenEye (1995)''\<rparr>"
    by code_simp
  have i4: "int_py scenario (fst (''4'', ''0.8'')) = Inr 4"
    by code_simp
  have f4: "find (\<lambda>row. movie_id row = 4) (movie_df scenario) = None"
    by code_simp
  have x2: "float_py scenario (fst (''2'', ''0.5'')) = Inr (Finite 2)"
    by code_simp
  have g2: "find (\<lambda>row. float_eq scenario (short_song_id row) (Finite 2)) (song_df scenario)
      = Some \<lparr>short_song_id = Finite 2, title = ''Yellow''\<rparr>"
    by code_simp
  have x4: "float_py scenario (fst (''4'', ''0.8'')) = Inr (Finite 4)"
    by code_simp
  have g4: "find (\<lambda>row. float_eq scenario (short_song_id row) (Finite 4)) (song_df scenario) = None"
    by code_simp
  note at2 = title_resolution [where env = scenario and rec = "(''2'', ''0.5'')" and k = 2
      and x = "Finite 2" and st = initial_state]
  note at4 = title_resolution [where env = scenario and rec = "(''4'', ''0.8'')" and k = 4
      and x = "Finite 4" and st = initial_state and recs = "[(''1'', ''0.9'')]"]
  have m2: "movie_show scenario (''2'', ''0.5'') initial_state
       = (None, print_py [[CHR 0x09], ''GoldenEye (1995)''] initial_state)"
    using at2 i2 by (simp only: f2 option.case movie_meta.select_convs)
  have s2: "music_show scenario (''2'', ''0.5'') initial_state
       = (None, print_py [[CHR 0x09], ''Yellow''] initial_state)"
    using at2 x2 by (simp only: g2 option.case song_meta.select_convs)
  have m4: "for_each (movie_show scenario) [(''4'', ''0.8''), (''1'', ''0.9'')] initial_state
       = (Some IndexError, initial_state)"
    using at4 i4 f4 by blast
  have s4: "for_each (music_show scenario) [(''4'', ''0.8''), (''1'', ''0.9'')] initial_state
       = (Some IndexError, initial_state)"
    using at4 x4 g4 by blast

  let ?tie = "get_recommendations_for_user scenario tie_rows movie_model (PyInt 100) True"
  have t1: "fst (movie_scoring scenario tie_rows movie_model (str_py (PyInt 100))) = None"
    by code_simp
  have t2: "fst (titles_until_error (movie_title_for scenario) (recommendations (snd ?tie))) = None"
    by code_simp
  have t3: "(''Recommended movies for user with id :  '' @ str_py (PyInt 100))
        # map title_line (snd (titles_until_error (movie_title_for scenario) (recommendations (snd ?tie))))
      = [''Recommended movies for user with id :  100'', title_line ''Toy Story (1995)'',
          title_line ''GoldenEye (1995)'', title_line ''Copycat (1995)'']"
    by code_simp
  have "fst ?tie = fst (titles_until_error (movie_title_for scenario) (recommendations (snd ?tie)))
      \<and> stdout (snd ?tie)
        = (''Recommended movies for user with id :  '' @ str_py (PyInt 100))
          # map title_line (snd (titles_until_error (movie_title_for scenario) (recommendations (snd ?tie))))"
    using title_resolution [where env = scenario and contents = tie_rows and m = movie_model
        and user_id = "PyInt 100"] t1 by blast
  then have t4: "fst ?tie = None"
    and t5: "stdout (snd ?tie)
       = [''Recommended movies for user with id :  100'', title_line ''Toy Story (1995)'',
          title_line ''GoldenEye (1995)'', title_line ''Copycat (1995)'']"
    unfolding t2 t3 by blast+
  from t4 have t6: "?tie = (None, snd ?tie)"
    by (metis prod.collapse)

  let ?gap = "get_recommendations_for_user gap_session gap_rows movie_model (PyInt 100) True"
  have a1: "fst (movie_scoring gap_session gap_rows movie_model (str_py (PyInt 100))) = None"
    by code_simp
  have a2: "recommendations (snd ?gap) = [(''1'', ''0.9'')] @ (''4'', ''0.8'') # [(''2'', ''0.5'')]"
    by code_simp
  have a3: "fst (titles_until_error (movie_title_for gap_session) [(''1'', ''0.9'')]) = None"
    by code_simp
  have a4: "int_py gap_session (fst (''4'', ''0.8'')) = Inr 4"
    by code_simp
  have a5: "find (\<lambda>row. movie_id row = 4) (movie_df gap_session) = None"
    by code_simp
  have a6: "(''Recommended movies for user with id :  '' @ str_py (PyInt 100))
        # map title_line (snd (titles_until_error (movie_title_for gap_session) [(''1'', ''0.9'')]))
      = [''Recommended movies for user with id :  100'', title_line ''Toy Story (1995)'']"
    by code_simp
  have "fst ?gap = Some IndexError
      \<and> stdout (snd ?gap)
        = (''Recommended movies for user with id :  '' @ str_py (PyInt 100))
          # map title_line (snd (titles_until_error (movie_title_for gap_session) [(''1'', ''0.9'')]))"
    using title_resolution [where env = gap_session and contents = gap_rows and m = movie_model
        and user_id = "PyInt 100" and pre = "[(''1'', ''0.9'')]" and rec = "(''4'', ''0.8'')"
        and post = "[(''2'', ''0.5'')]" and k = 4] a1 a2 a3 a4 a5
    by blast
  then have a7: "fst ?gap = Some IndexError"
    and a8: "stdout (snd ?gap)
       = [''Recommended movies for user with id :  100'', title_line ''Toy Story (1995)'']"
    unfolding a6 by blast+

  let ?song = "get_music_recommendations_for_user gap_session gap_music_rows music_model (PyStr ''100'') True"
  have b1: "fst (music_scoring gap_session gap_music_rows music_model (str_py (PyStr ''100''))) = None"
    by code_simp
  have b0: "2 \<le> length gap_music_rows"
    by code_simp
  have b2: "recommendations (snd ?song) = [(''1'', ''0.9'')] @ (''4'', ''0.8'') # [(''2'', ''0.5'')]"
    by code_simp
  have b3: "fst (titles_until_error (song_title_for gap_session) [(''1'', ''0.9'')]) = None"
    by code_simp
  have b4: "float_py gap_session (fst (''4'', ''0.8'')) = Inr (Finite 4)"
    by code_simp
  have b5: "find (\<lambda>row. float_eq gap_session (short_song_id row) (Finite 4)) (song_df gap_session) = None"
    by code_simp
  have b6: "(''Recommended songs for user with id :  ''
          @ user_field 1 (gap_music_rows ! (length gap_music_rows - 2)))
        # map title_line (snd (titles_until_error (song_title_for gap_session) [(''1'', ''0.9'')]))
      = [''Recommended songs for user with id :  100'', title_line ''Stronger'']"
    by code_simp
  have "fst ?song = Some IndexError
      \<and> stdout (snd ?song)
        = (''Recommended songs for user with id :  ''
             @ user_field 1 (gap_music_rows ! (length gap_music_rows - 2)))
          # map title_line (snd (titles_until_error (song_title_for gap_session) [(''1'', ''0.9'')]))"
    using title_resolution [where env = gap_session and contents = gap_music_rows and m = music_model
        and user_id = "PyStr ''100''" and pre = "[(''1'', ''0.9'')]" and rec = "(''4'', ''0.8'')"
        and post = "[(''2'', ''0.5'')]" and x = "Finite 4"] b1 b0 b2 b3 b4 b5
    by blast
  then have b7: "fst ?song = Some IndexError"
    and b8: "stdout (snd ?song)
       = [''Recommended songs for user with id :  100'', title_line ''Stronger'']"
    unfolding b6 by blast+

  from i2 m2 i4 f4 m4 x2 s2 x4 g4 s4 t1 t6 t5 a1 a2 a3 a4 a5 a7 a8 b1 b0 b2 b3 b4 b5 b7 b8
  show ?thesis by blast
qed

subsection \<open>C9: the header of the music routine\<close>

lemma movie_header:
  assumes ok: "fst (movie_scoring env contents m (str_py user_id)) = None"
  shows "take 1 (stdout (snd (get_recommendations_for_user env contents m user_id True)))
       = [''Recommended movies for user with id :  '' @ str_py user_id]"
proof -
  obtain st1 where sc: "movie_scoring env contents m (str_py user_id) = (None, st1)"
    using ok by (cases "movie_scoring env contents m (str_py user_id)") auto
  obtain err st where run: "get_recommendations_for_user env contents m user_id True = (err, st)"
    by (cases "get_recommendations_for_user env contents m user_id True")
  from sc have "for_each (row_step 2 env m (str_py user_id)) (butlast contents) initial_state = (None, st1)"
    by (simp add: movie_scoring_rows)
  from rows_scored [OF this] have out: "stdout st1 = []"
    by (simp add: initial_state_def)
  from movie_run [OF sc run] have "movie_display env (str_py user_id) st1 = (err, st)" by simp
  from movie_display_effect [OF this] out
  have "prefix [''Recommended movies for user with id :  '' @ str_py user_id] (stdout st)"
    by simp
  then show ?thesis
    using run by (auto simp: prefix_def)
qed

lemma music_header:
  assumes ok: "fst (music_scoring env contents m (str_py user_id)) = None"
    and some: "2 \<le> length contents"
  shows "take 1 (stdout (snd (get_music_recommendations_for_user env contents m user_id True)))
       = [''Recommended songs for user with id :  ''
            @ user_field 1 (contents ! (length contents - 2))]"
proof -
  obtain st1 where sc: "music_scoring env contents m (str_py user_id) = (None, st1)"
    using ok by (cases "music_scoring env contents m (str_py user_id)") auto
  obtain err st where run: "get_music_recommendations_for_user env contents m user_id True = (err, st)"
    by (cases "get_music_recommendations_for_user env contents m user_id True")
  from some have ne: "butlast contents \<noteq> []"
    by (cases contents rule: rev_cases) auto
  have "last (butlast contents) = butlast contents ! (length (butlast contents) - 1)"
    using ne by (rule last_conv_nth)
  also have "\<dots> = contents ! (length contents - 2)"
    using some by (simp add: nth_butlast numeral_2_eq_2)
  finally have lst: "last (butlast contents) = contents ! (length contents - 2)" .
  from sc have "for_each (row_step 1 env m (str_py user_id)) (butlast contents) initial_state = (None, st1)"
    by (simp add: music_scoring_rows)
  from rows_scored [OF this] ne lst
  have out: "stdout st1 = []"
    and usr: "user st1 = Some (user_field 1 (contents ! (length contents - 2)))"
    by (simp_all add: initial_state_def)
  from music_run [OF sc run] have "music_display env st1 = (err, st)" by simp
  from music_display_effect [OF this] out usr
  have "prefix [''Recommended songs for user with id :  ''
            @ user_field 1 (contents ! (length contents - 2))] (stdout st)"
    by simp
  then show ?thesis
    using run by (auto simp: prefix_def)
qed

text \<open>
  C9: in the music routine the header line shows the loop variable \<^verbatim>\<open>user\<close>, that is
  the user field of the last line the loop examined (the line before the last one of the
  file), not the requested id; the movie routine shows the requested id. In the file with
  rows of the users 100, 200, 100 and the requested id 100, the music header shows 200 and
  the movie header shows 100.
\<close>

theorem music_header_prints_loop_variable:
  "(fst (music_scoring env contents m (str_py user_id)) = None \<and> 2 \<le> length contents \<longrightarrow>
      take 1 (stdout (snd (get_music_recommendations_for_user env contents m user_id True)))
        = [''Recommended songs for user with id :  ''
             @ user_field 1 (contents ! (length contents - 2))])
   \<and> (fst (movie_scoring env contents m (str_py user_id)) = None \<longrightarrow>
      take 1 (stdout (snd (get_recommendations_for_user env contents m user_id True)))
        = [''Recommended movies for user with id :  '' @ str_py user_id])
   \<and> take 1 (stdout (snd
        (get_music_recommendations_for_user scenario mixed_music_rows music_model (PyStr ''100'') True)))
       = [''Recommended songs for user with id :  200'']
   \<and> take 1 (stdout (snd
        (get_recommendations_for_user scenario mixed_rows movie_model (PyStr ''100'') True)))
       = [''Recommended movies for user with id :  100'']"
proof -
  have ex1: "take 1 (stdout (snd
        (get_music_recommendations_for_user scenario mixed_music_rows music_model (PyStr ''100'') True)))
       = [''Recommended songs for user with id :  200'']"
    by code_simp
  have ex2: "take 1 (stdout (snd
        (get_recommendations_for_user scenario mixed_rows movie_model (PyStr ''100'') True)))
       = [''Recommended movies for user with id :  100'']"
    by code_simp
  from music_header [of env contents m user_id] movie_header [of env contents m user_id] ex1 ex2
  show ?thesis by blast
qed

theorem music_header_prints_loop_variable_witness:
  "fst (music_scoring scenario mixed_music_rows music_model (str_py (PyStr ''100''))) = None
   \<and> 2 \<le> length mixed_music_rows
   \<and> user_field 1 (mixed_music_rows ! (length mixed_music_rows - 2)) = ''200''
   \<and> take 1 (stdout (snd
        (get_music_recommendations_for_user scenario mixed_music_rows music_model (PyStr ''100'') True)))
       = [''Recommended songs for user with id :  '' @ ''200'']
   \<and> fst (movie_scoring scenario mixed_rows movie_model (str_py (PyStr ''100''))) = None
   \<and> take 1 (stdout (snd
        (get_recommendations_for_user scenario mixed_rows movie_model (PyStr ''100'') True)))
       = [''Recommended movies for user with id :  '' @ str_py (PyStr ''100'')]"
proof -
  have h1: "fst (music_scoring scenario mixed_music_rows music_model (str_py (PyStr ''100''))) = None"
    by code_simp
  have h2: "2 \<le> length mixed_music_rows"
    by code_simp
  have u: "user_field 1 (mixed_music_rows ! (length mixed_music_rows - 2)) = ''200''"
    by code_simp
  have h3: "fst (movie_scoring scenario mixed_rows movie_model (str_py (PyStr ''100''))) = None"
    by code_simp
  have a: "take 1 (stdout (snd
        (get_music_recommendations_for_user scenario mixed_music_rows music_model (PyStr ''100'') True)))
       = [''Recommended songs for user with id :  ''
            @ user_field 1 (mixed_music_rows ! (length mixed_music_rows - 2))]"
    using music_header_prints_loop_variable [of scenario mixed_music_rows music_model "PyStr ''100''"]
      h1 h2 by blast
  have b: "take 1 (stdout (snd
        (get_recommendations_for_user scenario mixed_rows movie_model (PyStr ''100'') True)))
       = [''Recommended movies for user with id :  '' @ str_py (PyStr ''100'')]"
    using music_header_prints_loop_variable [of scenario mixed_rows movie_model "PyStr ''100''"]
      h3 by blast
  from h1 h2 u a [unfolded u] h3 b show ?thesis by blast
qed

subsection \<open>C10: stability\<close>

text \<open>
  C10: the sort is stable. Entries of equal score text keep their order: filtering the
  sorted list by a score text gives the same list as filtering the accumulated one. In a
  call whose scoring loop raises no exception, the accumulated items are those of the
  scored rows in file order, so the selected entries of a given score text are an
  initial part of the scored rows of that score, in file order.
\<close>

theorem sort_is_stable:
  "filter (\<lambda>p. snd p = s) (sorted_py snd True ps)
     = filter (\<lambda>p. snd p = s) (ps :: (string \<times> string) list)
   \<and> (fst (movie_scoring env contents m (str_py user_id)) = None \<longrightarrow>
      prefix
        (filter (\<lambda>p. snd p = s)
           (recommendations (snd (get_recommendations_for_user env contents m user_id True))))
        (filter (\<lambda>p. snd p = s)
           (predictions (snd (get_recommendations_for_user env contents m user_id True))))
      \<and> map fst (predictions (snd (get_recommendations_for_user env contents m user_id True)))
        = map (item_field 2) (rows_of_user 2 (str_py user_id) (butlast contents)))
   \<and> (fst (music_scoring env contents m (str_py user_id)) = None \<longrightarrow>
      prefix
        (filter (\<lambda>p. snd p = s)
           (recommendations (snd (get_music_recommendations_for_user env contents m user_id True))))
        (filter (\<lambda>p. snd p = s)
           (predictions (snd (get_music_recommendations_for_user env contents m user_id True))))
      \<and> map fst (predictions (snd (get_music_recommendations_for_user env contents m user_id True)))
        = map (item_field 1) (rows_of_user 1 (str_py user_id) (butlast contents)))"
proof (intro conjI impI)
  show "filter (\<lambda>p. snd p = s) (sorted_py snd True ps) = filter (\<lambda>p. snd p = s) ps"
    by (rule sorted_py_stable)
next
  assume ok: "fst (movie_scoring env contents m (str_py user_id)) = None"
  let ?st = "snd (get_recommendations_for_user env contents m user_id True)"
  have "prefix (filter (\<lambda>p. snd p = s) (take 9 (sorted_py snd True (predictions ?st))))
      (filter (\<lambda>p. snd p = s) (sorted_py snd True (predictions ?st)))"
    by (rule filter_take_prefix)
  then show "prefix (filter (\<lambda>p. snd p = s) (recommendations ?st))
      (filter (\<lambda>p. snd p = s) (predictions ?st))"
    by (simp only: movie_selected [OF ok] sorted_py_stable)
  show "map fst (predictions ?st) = map (item_field 2) (rows_of_user 2 (str_py user_id) (butlast contents))"
    using movie_scored_exactly [OF ok, of True] by simp
next
  assume ok: "fst (music_scoring env contents m (str_py user_id)) = None"
  let ?st = "snd (get_music_recommendations_for_user env contents m user_id True)"
  have "prefix (filter (\<lambda>p. snd p = s) (take 9 (sorted_py snd True (predictions ?st))))
      (filter (\<lambda>p. snd p = s) (sorted_py snd True (predictions ?st)))"
    by (rule filter_take_prefix)
  then show "prefix (filter (\<lambda>p. snd p = s) (recommendations ?st))
      (filter (\<lambda>p. snd p = s) (predictions ?st))"
    by (simp only: music_selected [OF ok] sorted_py_stable)
  show "map fst (predictions ?st) = map (item_field 1) (rows_of_user 1 (str_py user_id) (butlast contents))"
    using music_scored_exactly [OF ok, of True] by simp
qed

theorem sort_is_stable_witness:
  "fst (movie_scoring scenario tie_rows movie_model (str_py (PyInt 100))) = None
   \<and> predictions (snd (get_recommendations_for_user scenario tie_rows movie_model (PyInt 100) True))
       = [(''2'', ''0.5''), (''1'', ''0.9''), (''5'', ''0.5'')]
   \<and> recommendations (snd (get_recommendations_for_user scenario tie_rows movie_model (PyInt 100) True))
       = [(''1'', ''0.9''), (''2'', ''0.5''), (''5'', ''0.5'')]
   \<and> prefix
        (filter (\<lambda>p. snd p = ''0.5'')
           (recommendations (snd (get_recommendations_for_user scenario tie_rows movie_model (PyInt 100) True))))
        (filter (\<lambda>p. snd p = ''0.5'')
           (predictions (snd (get_recommendations_for_user scenario tie_rows movie_model (PyInt 100) True))))
   \<and> fst (music_scoring scenario tie_music_rows music_model (str_py (PyStr ''100''))) = None
   \<and> recommendations (snd (get_music_recommendations_for_user scenario tie_music_rows music_model (PyStr ''100'') True))
       = [(''1'', ''0.9''), (''2'', ''0.5''), (''5'', ''0.5'')]
   \<and> prefix
        (filter (\<lambda>p. snd p = ''0.5'')
           (recommendations (snd (get_music_recommendations_for_user scenario tie_music_rows music_model (PyStr ''100'') True))))
        (filter (\<lambda>p. snd p = ''0.5'')
           (predictions (snd (get_music_recommendations_for_user scenario tie_music_rows music_model (PyStr ''100'') True))))"
proof -
  have h1: "fst (movie_scoring scenario tie_rows movie_model (str_py (PyInt 100))) = None"
    by code_simp
  have p1: "predictions (snd (get_recommendations_for_user scenario tie_rows movie_model (PyInt 100) True))
       = [(''2'', ''0.5''), (''1'', ''0.9''), (''5'', ''0.5'')]"
    by code_simp
  have r1: "recommendations (snd (get_recommendations_for_user scenario tie_rows movie_model (PyInt 100) True))
       = [(''1'', ''0.9''), (''2'', ''0.5''), (''5'', ''0.5'')]"
    by code_simp
  have h2: "fst (music_scoring scenario tie_music_rows music_model (str_py (PyStr ''100''))) = None"
    by code_simp
  have r2: "recommendations (snd (get_music_recommendations_for_user scenario tie_music_rows music_model (PyStr ''100'') True))
       = [(''1'', ''0.9''), (''2'', ''0.5''), (''5'', ''0.5'')]"
    by code_simp
  note movie = sort_is_stable [where env = scenario and contents = tie_rows and m = movie_model
      and user_id = "PyInt 100" and s = "''0.5''"]
  note music = sort_is_stable [where env = scenario and contents = tie_music_rows and m = music_model
      and user_id = "PyStr ''100''" and s = "''0.5''"]
  from movie music h1 p1 r1 h2 r2 show ?thesis by blast
qed

end
